theory Spec2Isabelle
  imports Main
begin

section \<open>Text and bytes\<close>

text \<open>
  The server handles two Python types: \<open>str\<close> (the decoded request, paths, header
  values) and \<open>bytes\<close> (file contents, what is written on the socket). Both are lists
  of \<^typ>\<open>char\<close> here. A \<^typ>\<open>char\<close> has eight bits, so a value of type \<open>str\<close> is a Python
  \<open>str\<close> whose code points are below 256; \<open>str.encode()\<close> is UTF-8 on that range.
\<close>

type_synonym str = string
type_synonym bytes = string

definition code_point :: "char \<Rightarrow> nat" where
  "code_point c = of_char c"

definition encode_char :: "char \<Rightarrow> bytes" where
  "encode_char c =
     (if code_point c < 128 then [c]
      else [char_of (192 + code_point c div 64), char_of (128 + code_point c mod 64)])"

definition encode :: "str \<Rightarrow> bytes" where
  "encode s = concat (map encode_char s)"

text \<open>\<open>str.isspace\<close> on the code points below 256.\<close>

definition isspace :: "char \<Rightarrow> bool" where
  "isspace c =
     (let n = code_point c
      in (9 \<le> n \<and> n \<le> 13) \<or> (28 \<le> n \<and> n \<le> 32) \<or> n = 133 \<or> n = 160)"

text \<open>\<open>str.lower\<close> on the code points below 256: A-Z, and the Latin-1 capitals but the
  multiplication sign.\<close>

definition lower_char :: "char \<Rightarrow> char" where
  "lower_char c =
     (let n = code_point c
      in if (65 \<le> n \<and> n \<le> 90) \<or> (192 \<le> n \<and> n \<le> 222 \<and> n \<noteq> 215)
         then char_of (n + 32) else c)"

definition lower :: "str \<Rightarrow> str" where
  "lower s = map lower_char s"

definition strip :: "str \<Rightarrow> str" where
  "strip s = rev (dropWhile isspace (rev (dropWhile isspace s)))"

text \<open>\<open>s.lstrip("/")\<close>.\<close>

definition lstrip_slash :: "str \<Rightarrow> str" where
  "lstrip_slash s = dropWhile (\<lambda>c. c = CHR ''/'') s"

text \<open>Splitting at every element that satisfies \<open>P\<close>: \<open>s.split(sep)\<close> for a separator of
  one character. The result is never empty.\<close>

fun split_when :: "('a \<Rightarrow> bool) \<Rightarrow> 'a list \<Rightarrow> 'a list list" where
  "split_when P [] = [[]]"
| "split_when P (x # xs) =
     (if P x then [] # split_when P xs
      else (let r = split_when P xs in (x # hd r) # tl r))"

definition split_on :: "'a \<Rightarrow> 'a list \<Rightarrow> 'a list list" where
  "split_on c s = split_when (\<lambda>x. x = c) s"

text \<open>\<open>s.split()\<close>: the maximal runs of characters that are not whitespace.\<close>

definition split_ws :: "str \<Rightarrow> str list" where
  "split_ws s = filter (\<lambda>t. t \<noteq> []) (split_when isspace s)"

text \<open>\<open>data.split("\r\n")\<close>, scanning from the left.\<close>

fun split_crlf :: "str \<Rightarrow> str list" where
  "split_crlf [] = [[]]"
| "split_crlf (x # xs) =
     (if x = CHR 0x0D \<and> xs \<noteq> [] \<and> hd xs = CHR 0x0A then [] # split_crlf (tl xs)
      else (let r = split_crlf xs in (x # hd r) # tl r))"

text \<open>\<open>sub in s\<close>, and \<open>s.split(sub, 1)[1]\<close> where \<open>sub\<close> occurs: what follows the first
  occurrence of \<open>sub\<close>.\<close>

fun after_first :: "str \<Rightarrow> str \<Rightarrow> str option" where
  "after_first sub [] = (if sub = [] then Some [] else None)"
| "after_first sub (x # xs) =
     (if take (length sub) (x # xs) = sub then Some (drop (length sub) (x # xs))
      else after_first sub xs)"

definition contains :: "str \<Rightarrow> str \<Rightarrow> bool" where
  "contains sub s = (after_first sub s \<noteq> None)"

text \<open>\<open>line.split(":", 1)\<close>: one part when there is no colon, else the two parts around
  the first colon.\<close>

definition split_colon :: "str \<Rightarrow> str list" where
  "split_colon line =
     (if CHR '':'' \<in> set line
      then [takeWhile (\<lambda>c. c \<noteq> CHR '':'') line, tl (dropWhile (\<lambda>c. c \<noteq> CHR '':'') line)]
      else [line])"

text \<open>\<open>sep.join(parts)\<close>.\<close>

fun join_with :: "str \<Rightarrow> str list \<Rightarrow> str" where
  "join_with sep [] = []"
| "join_with sep [p] = p"
| "join_with sep (p # q # ps) = p @ sep @ join_with sep (q # ps)"

text \<open>\<open>str(n)\<close> for a natural number.\<close>

fun str_nat :: "nat \<Rightarrow> str" where
  "str_nat n =
     (if n < 10 then [char_of (48 + n)]
      else str_nat (n div 10) @ [char_of (48 + n mod 10)])"

section \<open>\<open>os.path\<close> on POSIX\<close>

text \<open>
  On a POSIX system \<open>os.path\<close> is \<open>posixpath\<close>: the separator is \<open>/\<close>. The functions
  below follow the standard library's \<open>posixpath.py\<close>. The handler is embedded with
  them; what \<open>sanitize_path\<close> does with \<open>ntpath\<close> in their place, on Windows, is
  \<open>sanitize_path_nt\<close> below.
\<close>

definition isabs :: "str \<Rightarrow> bool" where
  "isabs p = (p \<noteq> [] \<and> hd p = CHR ''/'')"

text \<open>\<open>os.path.join(a, b)\<close>.\<close>

definition join :: "str \<Rightarrow> str \<Rightarrow> str" where
  "join a b =
     (if isabs b then b
      else if a = [] \<or> last a = CHR ''/'' then a @ b
      else a @ ''/'' @ b)"

text \<open>The loop of \<open>normpath\<close> over the components; \<open>new_comps\<close> is the stack it builds.\<close>

fun norm_comps :: "bool \<Rightarrow> str list \<Rightarrow> str list \<Rightarrow> str list" where
  "norm_comps initial_slashes new_comps [] = new_comps"
| "norm_comps initial_slashes new_comps (c # comps) =
     (if c = [] \<or> c = ''.'' then norm_comps initial_slashes new_comps comps
      else if c \<noteq> ''..'' \<or> (\<not> initial_slashes \<and> new_comps = [])
              \<or> (new_comps \<noteq> [] \<and> last new_comps = ''..'')
      then norm_comps initial_slashes (new_comps @ [c]) comps
      else if new_comps \<noteq> [] then norm_comps initial_slashes (butlast new_comps) comps
      else norm_comps initial_slashes new_comps comps)"

definition normpath :: "str \<Rightarrow> str" where
  "normpath path =
     (if path = [] then ''.''
      else
        (let initial_slashes =
               (if \<not> isabs path then (0::nat)
                else if take 2 path = ''//'' \<and> take 3 path \<noteq> ''///'' then 2 else 1);
             comps = norm_comps (initial_slashes \<noteq> 0) [] (split_on CHR ''/'' path);
             path' = replicate initial_slashes CHR ''/'' @ join_with ''/'' comps
         in if path' = [] then ''.'' else path'))"

text \<open>\<open>os.path.abspath\<close>, with the working directory as an argument.\<close>

definition abspath :: "str \<Rightarrow> str \<Rightarrow> str" where
  "abspath cwd path = normpath (if isabs path then path else join cwd path)"

fun common_prefix :: "'a list \<Rightarrow> 'a list \<Rightarrow> nat" where
  "common_prefix (x # xs) (y # ys) = (if x = y then Suc (common_prefix xs ys) else 0)"
| "common_prefix _ _ = 0"

text \<open>\<open>os.path.relpath(path, start)\<close> for a non-empty \<open>path\<close>.\<close>

definition relpath :: "str \<Rightarrow> str \<Rightarrow> str \<Rightarrow> str" where
  "relpath cwd path start =
     (let start_list = filter (\<lambda>x. x \<noteq> []) (split_on CHR ''/'' (abspath cwd start));
          path_list = filter (\<lambda>x. x \<noteq> []) (split_on CHR ''/'' (abspath cwd path));
          i = common_prefix start_list path_list;
          rel_list = replicate (length start_list - i) ''..'' @ drop i path_list
      in if rel_list = [] then ''.'' else foldl join (hd rel_list) (tl rel_list))"

section \<open>\<open>os.path\<close> on Windows\<close>

text \<open>
  On Windows \<open>os.path\<close> is \<open>ntpath\<close>: the separator is the backslash, the slash is the
  alternative separator, and a path may start with a drive (\<open>C:\<close>, or a UNC share). The
  functions below follow \<open>ntpath.py\<close> of CPython 3.11 for what \<open>sanitize_path\<close> calls:
  \<open>splitdrive\<close>, \<open>normpath\<close> (the definition in Python; on Windows itself the interpreter
  has the same function built in) and \<open>join\<close>.
\<close>

definition BACKSLASH :: char where
  "BACKSLASH = CHR 0x5C"

text \<open>A Windows path written with slashes, to keep the examples readable.\<close>

definition win :: "str \<Rightarrow> str" where
  "win p = map (\<lambda>c. if c = CHR ''/'' then BACKSLASH else c) p"

text \<open>\<open>str.upper\<close> on the code points below 256 whose upper case is one code point below
  256; the three others (\<open>0xB5\<close>, \<open>0xDF\<close>, \<open>0xFF\<close>) are left as they are. It is used to
  compare with a prefix in which neither they nor their upper case occur.\<close>

definition upper_char :: "char \<Rightarrow> char" where
  "upper_char c =
     (let n = code_point c
      in if (97 \<le> n \<and> n \<le> 122) \<or> (224 \<le> n \<and> n \<le> 254 \<and> n \<noteq> 247)
         then char_of (n - 32) else c)"

definition upper :: "str \<Rightarrow> str" where
  "upper s = map upper_char s"

text \<open>\<open>s.find(c, start)\<close>; \<open>None\<close> is \<open>-1\<close>.\<close>

definition find_from :: "char \<Rightarrow> nat \<Rightarrow> str \<Rightarrow> nat option" where
  "find_from c start s =
     (let k = length (takeWhile (\<lambda>x. x \<noteq> c) (drop start s))
      in if start + k < length s then Some (start + k) else None)"

definition nt_splitdrive :: "str \<Rightarrow> str \<times> str" where
  "nt_splitdrive p =
     (if 2 \<le> length p then
        (let normp = win p
         in if take 2 normp = [BACKSLASH, BACKSLASH] then
              (let start = (if upper (take 8 normp) = win ''//?/UNC/'' then 8 else 2)
               in case find_from BACKSLASH start normp of
                    None \<Rightarrow> (p, [])
                  | Some index \<Rightarrow>
                      (case find_from BACKSLASH (index + 1) normp of
                         None \<Rightarrow> (p, [])
                       | Some index2 \<Rightarrow> (take index2 p, drop index2 p)))
            else if take 1 (drop 1 normp) = '':'' then (take 2 p, drop 2 p)
            else ([], p))
      else ([], p))"

text \<open>The \<open>while\<close> statement of \<open>ntpath.normpath\<close>: \<open>kept\<close> is \<open>comps[:i]\<close>, the third
  argument is \<open>comps[i:]\<close>, and \<open>rooted\<close> is \<open>prefix.endswith(sep)\<close>.\<close>

fun nt_norm_comps :: "bool \<Rightarrow> str list \<Rightarrow> str list \<Rightarrow> str list" where
  "nt_norm_comps rooted kept [] = kept"
| "nt_norm_comps rooted kept (c # comps) =
     (if c = [] \<or> c = ''.'' then nt_norm_comps rooted kept comps
      else if c = ''..'' then
        (if kept \<noteq> [] \<and> last kept \<noteq> ''..'' then nt_norm_comps rooted (butlast kept) comps
         else if kept = [] \<and> rooted then nt_norm_comps rooted kept comps
         else nt_norm_comps rooted (kept @ [c]) comps)
      else nt_norm_comps rooted (kept @ [c]) comps)"

definition nt_normpath :: "str \<Rightarrow> str" where
  "nt_normpath path =
     (case nt_splitdrive (win path) of
        (drive, rest) \<Rightarrow>
          (let prefix = (if rest \<noteq> [] \<and> hd rest = BACKSLASH then drive @ [BACKSLASH] else drive);
               path' = (if rest \<noteq> [] \<and> hd rest = BACKSLASH
                        then dropWhile (\<lambda>c. c = BACKSLASH) rest else rest);
               comps = nt_norm_comps (prefix \<noteq> [] \<and> last prefix = BACKSLASH) []
                         (split_on BACKSLASH path')
           in prefix @ join_with [BACKSLASH]
                         (if prefix = [] \<and> comps = [] then [''.''] else comps)))"

text \<open>\<open>ntpath.join(path, p)\<close>.\<close>

definition nt_join :: "str \<Rightarrow> str \<Rightarrow> str" where
  "nt_join path p =
     (case nt_splitdrive path of
        (result_drive, result_path) \<Rightarrow>
          (case nt_splitdrive p of
             (p_drive, p_path) \<Rightarrow>
               (case
                  (if p_path \<noteq> [] \<and> (hd p_path = BACKSLASH \<or> hd p_path = CHR ''/'') then
                     (if p_drive \<noteq> [] \<or> result_drive = [] then p_drive else result_drive,
                      p_path)
                   else if p_drive \<noteq> [] \<and> p_drive \<noteq> result_drive
                           \<and> lower p_drive \<noteq> lower result_drive then
                     (p_drive, p_path)
                   else
                     (if p_drive \<noteq> [] \<and> p_drive \<noteq> result_drive then p_drive else result_drive,
                      (if result_path \<noteq> []
                          \<and> last result_path \<noteq> BACKSLASH \<and> last result_path \<noteq> CHR ''/''
                       then result_path @ [BACKSLASH] else result_path) @ p_path))
                of (drive, path') \<Rightarrow>
                  if path' \<noteq> [] \<and> hd path' \<noteq> BACKSLASH \<and> hd path' \<noteq> CHR ''/''
                     \<and> drive \<noteq> [] \<and> last drive \<noteq> CHR '':''
                  then drive @ [BACKSLASH] @ path'
                  else drive @ path')))"

section \<open>The server's data\<close>

text \<open>The keys of \<open>config\<close> that the request pipeline reads. A key that is absent, or
  \<open>None\<close>, is \<open>None\<close> here.\<close>

record config =
  ip_whitelist_enabled :: bool
  ip_whitelist :: "str list"
  browsable_dirs :: "str list"
  favicon :: "str option"

text \<open>What \<open>os.path.isdir\<close>, \<open>os.path.isfile\<close>, \<open>open(...).read()\<close> and \<open>os.listdir\<close>
  see at a path: nothing, a regular file with its bytes (\<open>None\<close> when opening or reading
  it raises), or a directory with the names of its entries (\<open>None\<close> when listing it
  raises).\<close>

datatype node = File "bytes option" | Dir "str list option"

text \<open>What surrounds the handler: the module constant \<open>WEB_ROOT\<close>, the working
  directory, the loaded \<open>config\<close>, the file system, and the library functions the
  handler calls and this theory does not define: \<open>urllib.parse.unquote_plus\<close>,
  \<open>mimetypes.guess_type\<close> (its first component), and \<open>parse_qs\<close> followed by the
  formatting of its result in an f-string.\<close>

record env =
  WEB_ROOT :: str
  cwd :: str
  config :: config
  files :: "str \<Rightarrow> node option"
  unquote_plus :: "str \<Rightarrow> str"
  guess_type :: "str \<Rightarrow> str option"
  parse_qs :: "str \<Rightarrow> str"

text \<open>The dictionary \<open>parse_request\<close> returns; the key \<open>client\<close>, the connection, is
  left out, and each field is named after its key. The headers are a dictionary in
  insertion order.\<close>

record request =
  req_method :: str
  req_path :: str
  req_version :: str
  req_headers :: "(str \<times> str) list"
  req_body :: str

text \<open>The dictionary \<open>response\<close> of \<open>handle_client\<close>.\<close>

record response =
  resp_status :: nat
  resp_headers :: "(str \<times> str) list"
  resp_body :: bytes

text \<open>\<open>d[k] = v\<close> on a dictionary in insertion order.\<close>

fun dict_set :: "'k \<Rightarrow> 'v \<Rightarrow> ('k \<times> 'v) list \<Rightarrow> ('k \<times> 'v) list" where
  "dict_set k v [] = [(k, v)]"
| "dict_set k v ((k', v') # d) =
     (if k' = k then (k, v) # d else (k', v') # dict_set k v d)"

text \<open>
  A hook is code of a plugin. It is called with the request (and, after resolution, the
  response), both mutable dictionaries, and it may change state of its own, of type
  \<open>'w\<close>. It returns or raises; either way it leaves the request, the response and its
  state as it made them.
\<close>

datatype 'a hook_result = Returned 'a | Raised 'a

type_synonym 'w before_hook = "request \<Rightarrow> 'w \<Rightarrow> (request \<times> 'w) hook_result"
type_synonym 'w after_hook =
  "request \<Rightarrow> response \<Rightarrow> 'w \<Rightarrow> (request \<times> response \<times> 'w) hook_result"

record 'w plugin_hooks =
  before_request :: "'w before_hook list"
  after_request :: "'w after_hook list"

section \<open>HTTP helpers\<close>

definition reasons :: "nat \<Rightarrow> str" where
  "reasons status =
     (if status = 200 then ''OK''
      else if status = 404 then ''Not Found''
      else if status = 400 then ''Bad Request''
      else if status = 500 then ''Internal Server Error''
      else if status = 403 then ''Forbidden''
      else ''OK'')"

definition CRLF :: str where
  "CRLF = [CHR 0x0D, CHR 0x0A]"

definition http_response :: "nat \<Rightarrow> (str \<times> str) list \<Rightarrow> bytes \<Rightarrow> bytes" where
  "http_response status headers body =
     (let header_lines =
            [''HTTP/1.1 '' @ str_nat status @ '' '' @ reasons status]
            @ (if headers \<noteq> [] then map (\<lambda>(k, v). k @ '': '' @ v) headers else [])
            @ [[], []]
      in encode (join_with CRLF header_lines) @ body)"

fun parse_headers :: "(str \<times> str) list \<Rightarrow> str list \<Rightarrow> (str \<times> str) list" where
  "parse_headers headers [] = headers"
| "parse_headers headers (line # lines) =
     (if line = [] then headers
      else
        (let parts = split_colon line
         in if length parts = 2
            then parse_headers
                   (dict_set (lower (strip (parts ! 0))) (strip (parts ! 1)) headers) lines
            else parse_headers headers lines))"

text \<open>\<open>parse_request\<close>: \<open>None\<close> is the value the \<open>except\<close> clause returns. The one
  statement of the \<open>try\<close> block that raises is the unpacking of the request line into
  three names.\<close>

definition parse_request :: "str \<Rightarrow> request option" where
  "parse_request data =
     (let lines = split_crlf data
      in case split_ws (hd lines) of
           [method, path, version] \<Rightarrow>
             Some \<lparr> req_method = method, req_path = path, req_version = version,
                    req_headers = parse_headers [] (tl lines),
                    req_body = (if method = ''POST''
                            then (case after_first (CRLF @ CRLF) data of
                                    Some rest \<Rightarrow> rest | None \<Rightarrow> [])
                            else []) \<rparr>
         | _ \<Rightarrow> None)"

definition sanitize_path :: "env \<Rightarrow> str \<Rightarrow> str option" where
  "sanitize_path e path =
     (let path1 = unquote_plus e (takeWhile (\<lambda>c. c \<noteq> CHR ''?'') path);
          path2 = normpath (lstrip_slash path1)
      in if contains ''..'' path2 then None else Some (join (WEB_ROOT e) path2))"

text \<open>The same four lines where \<open>os.path\<close> is \<open>ntpath\<close>.\<close>

definition sanitize_path_nt :: "env \<Rightarrow> str \<Rightarrow> str option" where
  "sanitize_path_nt e path =
     (let path1 = unquote_plus e (takeWhile (\<lambda>c. c \<noteq> CHR ''?'') path);
          path2 = nt_normpath (lstrip_slash path1)
      in if contains ''..'' path2 then None else Some (nt_join (WEB_ROOT e) path2))"

section \<open>The file system as the handler sees it\<close>

definition isdir :: "env \<Rightarrow> str \<Rightarrow> bool" where
  "isdir e p = (case files e p of Some (Dir _) \<Rightarrow> True | _ \<Rightarrow> False)"

definition isfile :: "env \<Rightarrow> str \<Rightarrow> bool" where
  "isfile e p = (case files e p of Some (File _) \<Rightarrow> True | _ \<Rightarrow> False)"

text \<open>\<open>open(p, "rb").read()\<close>; \<open>None\<close> when it raises.\<close>

definition read_file :: "env \<Rightarrow> str \<Rightarrow> bytes option" where
  "read_file e p = (case files e p of Some (File (Some b)) \<Rightarrow> Some b | _ \<Rightarrow> None)"

text \<open>\<open>os.listdir(p)\<close>; \<open>None\<close> when it raises.\<close>

definition listdir :: "env \<Rightarrow> str \<Rightarrow> str list option" where
  "listdir e p = (case files e p of Some (Dir (Some names)) \<Rightarrow> Some names | _ \<Rightarrow> None)"

definition QUOTE :: str where
  "QUOTE = [CHR 0x22]"

definition list_item :: "str \<Rightarrow> str \<Rightarrow> str" where
  "list_item request_path file =
     ''<li><a href='' @ QUOTE @ join request_path file @ QUOTE @ ''>'' @ file @ ''</a></li>''"

definition handle_directory :: "env \<Rightarrow> str \<Rightarrow> str \<Rightarrow> bytes" where
  "handle_directory e path request_path =
     (case listdir e path of
        None \<Rightarrow> ''Error listing directory''
      | Some names \<Rightarrow>
          encode
            (foldl (\<lambda>listing file. listing @ list_item request_path file)
               ''<html><body><h1>Directory listing</h1><ul>'' names
             @ ''</ul></body></html>''))"

section \<open>The client handler\<close>

text \<open>
  \<open>handle_client\<close> is one function in the source; it is cut here at its comments. Each
  part ends in one of three ways: it has written a response on the connection and
  returned (\<open>Sent\<close>), it has built the dictionary \<open>response\<close> that the
  \<open>after_request\<close> hooks receive (\<open>Built\<close>), or a statement raised and control is in
  the \<open>except Exception\<close> clause (\<open>Failed\<close>).
\<close>

datatype outcome = Sent bytes | Built response | Failed

text \<open>The responses with a fixed text: \<open>body = b"..."\<close> and
  \<open>http_response(status, {"Content-Length": str(len(body))}, body)\<close>.\<close>

definition plain_response :: "nat \<Rightarrow> bytes \<Rightarrow> bytes" where
  "plain_response status body =
     http_response status [(''Content-Length'', str_nat (length body))] body"

text \<open>Lines 228 to 242: the check that the path is a regular file, then GET/POST.\<close>

definition dispatch :: "env \<Rightarrow> request \<Rightarrow> str \<Rightarrow> outcome" where
  "dispatch e request path =
     (if \<not> isfile e path then Sent (plain_response 404 ''404 Not Found'')
      else if req_method request = ''GET'' then
        (case read_file e path of
           None \<Rightarrow> Failed
         | Some body \<Rightarrow>
             (let mime = (case guess_type e path of
                            None \<Rightarrow> ''application/octet-stream''
                          | Some m \<Rightarrow> if m = [] then ''application/octet-stream'' else m)
              in Built \<lparr> resp_status = 200,
                         resp_headers = [(''Content-Type'', mime),
                                         (''Content-Length'', str_nat (length body))],
                         resp_body = body \<rparr>))
      else if req_method request = ''POST'' then
        Built \<lparr> resp_status = 200,
                resp_headers = [(''Content-Type'', ''text/html'')],
                resp_body = encode (''<html><body><pre>'' @ parse_qs e (req_body request)
                                    @ ''</pre></body></html>'') \<rparr>
      else Built \<lparr> resp_status = 400, resp_headers = [(''Content-Length'', ''0'')],
                   resp_body = [] \<rparr>)"

text \<open>\<open>"/" + os.path.relpath(path, WEB_ROOT).replace("\\", "/")\<close>.\<close>

definition rel_path_of :: "env \<Rightarrow> str \<Rightarrow> str" where
  "rel_path_of e path =
     ''/'' @ map (\<lambda>c. if c = CHR 0x5C then CHR ''/'' else c) (relpath (cwd e) path (WEB_ROOT e))"

text \<open>Lines 213 to 242: the directory case, then the rest.\<close>

definition serve :: "env \<Rightarrow> request \<Rightarrow> str \<Rightarrow> outcome" where
  "serve e request path =
     (if isdir e path then
        (let index_file = join path ''index.html''
         in if isfile e index_file then dispatch e request index_file
            else
              (let rel_path = rel_path_of e path
               in if rel_path \<notin> set (browsable_dirs (config e))
                  then Sent (plain_response 403 ''403 Forbidden'')
                  else
                    (let body = handle_directory e path rel_path
                     in Sent (http_response 200
                                [(''Content-Type'', ''text/html''),
                                 (''Content-Length'', str_nat (length body))] body))))
      else dispatch e request path)"

text \<open>Lines 205 to 211: whether the favicon branch is entered (the request path is
  \<open>/favicon.ico\<close> and \<open>config.get("favicon")\<close> is true), and the file it then serves, if
  \<open>sanitize_path\<close> accepts the configured path and it is a regular file.\<close>

definition favicon_file :: "env \<Rightarrow> request \<Rightarrow> str option" where
  "favicon_file e request =
     (if req_path request = ''/favicon.ico'' then
        (case favicon (config e) of
           None \<Rightarrow> None
         | Some fav \<Rightarrow>
             if fav = [] then None
             else
               (case sanitize_path e fav of
                  None \<Rightarrow> None
                | Some favicon_path \<Rightarrow>
                    if favicon_path \<noteq> [] \<and> isfile e favicon_path then Some favicon_path
                    else None))
      else None)"

text \<open>Lines 199 to 242.\<close>

definition resolve :: "env \<Rightarrow> request \<Rightarrow> outcome" where
  "resolve e request =
     (case sanitize_path e (req_path request) of
        None \<Rightarrow> Sent (plain_response 404 ''404 Not Found'')
      | Some path \<Rightarrow>
          if path = [] then Sent (plain_response 404 ''404 Not Found'')
          else
            (case favicon_file e request of
               Some favicon_path \<Rightarrow>
                 (case read_file e favicon_path of
                    None \<Rightarrow> Failed
                  | Some body \<Rightarrow>
                      Sent (http_response 200
                              [(''Content-Type'', ''image/x-icon''),
                               (''Content-Length'', str_nat (length body))] body))
             | None \<Rightarrow> serve e request path))"

text \<open>The two \<open>for\<close> statements over the hooks: \<open>try: hook(...)\<close>, \<open>except: pass\<close>.\<close>

fun run_before :: "'w before_hook list \<Rightarrow> request \<Rightarrow> 'w \<Rightarrow> request \<times> 'w" where
  "run_before [] request w = (request, w)"
| "run_before (hook # hooks) request w =
     (case hook request w of
        Returned (request', w') \<Rightarrow> run_before hooks request' w'
      | Raised (request', w') \<Rightarrow> run_before hooks request' w')"

fun run_after ::
  "'w after_hook list \<Rightarrow> request \<Rightarrow> response \<Rightarrow> 'w \<Rightarrow> request \<times> response \<times> 'w" where
  "run_after [] request response w = (request, response, w)"
| "run_after (hook # hooks) request response w =
     (case hook request response w of
        Returned (request', response', w') \<Rightarrow> run_after hooks request' response' w'
      | Raised (request', response', w') \<Rightarrow> run_after hooks request' response' w')"

text \<open>
  \<open>handle_client\<close>, from the decoded \<open>data\<close> of the one \<open>recv\<close> and the remote address
  \<open>addr[0]\<close>. The result is what the handler wrote on the connection, in order, and the
  state the hooks left.
\<close>

definition handle_client ::
  "env \<Rightarrow> 'w plugin_hooks \<Rightarrow> str \<Rightarrow> str \<Rightarrow> 'w \<Rightarrow> bytes list \<times> 'w" where
  "handle_client e plugin_hooks data addr w =
     (if data = [] then ([], w)
      else
        (case parse_request data of
           None \<Rightarrow> ([http_response 400 [(''Content-Length'', ''0'')] []], w)
         | Some request \<Rightarrow>
             if ip_whitelist_enabled (config e) \<and> addr \<notin> set (ip_whitelist (config e))
             then ([plain_response 403 ''403 Forbidden''], w)
             else
               (case run_before (before_request plugin_hooks) request w of
                  (request', w') \<Rightarrow>
                    (case resolve e request' of
                       Sent b \<Rightarrow> ([b], w')
                     | Failed \<Rightarrow> ([plain_response 500 ''500 Internal Server Error''], w')
                     | Built response \<Rightarrow>
                         (case run_after (after_request plugin_hooks) request' response w' of
                            (request'', response', w'') \<Rightarrow>
                              ([http_response (resp_status response') (resp_headers response')
                                  (resp_body response')], w''))))))"

section \<open>An example installation\<close>

text \<open>
  \<open>unquote_plus\<close> on the inputs whose escapes are all below \<open>%80\<close>: a plus sign is a
  space, and \<open>%XX\<close> is the character of that code. (Python decodes the escapes from
  \<open>%80\<close> on as UTF-8.)
\<close>

definition hex_digit :: "char \<Rightarrow> nat option" where
  "hex_digit c =
     (let n = code_point c
      in if 48 \<le> n \<and> n \<le> 57 then Some (n - 48)
         else if 65 \<le> n \<and> n \<le> 70 then Some (n - 55)
         else if 97 \<le> n \<and> n \<le> 102 then Some (n - 87)
         else None)"

fun unquote_ascii :: "str \<Rightarrow> str" where
  "unquote_ascii [] = []"
| "unquote_ascii (c # s) =
     (if c = CHR ''%'' then
        (case s of
           a # b # s' \<Rightarrow>
             (case (hex_digit a, hex_digit b) of
                (Some h, Some l) \<Rightarrow> char_of (16 * h + l) # unquote_ascii s'
              | _ \<Rightarrow> c # unquote_ascii s)
         | _ \<Rightarrow> c # unquote_ascii s)
      else c # unquote_ascii s)"

definition unquote_plus_ascii :: "str \<Rightarrow> str" where
  "unquote_plus_ascii s = unquote_ascii (map (\<lambda>c. if c = CHR ''+'' then CHR '' '' else c) s)"

text \<open>A web root \<open>/srv/root\<close> with a text file whose name has two dots in a row, an icon,
  a directory \<open>pub\<close> with two entries, a directory \<open>locked\<close> that cannot be listed, and a
  directory \<open>site\<close> with an index file.\<close>

definition example_files :: "str \<Rightarrow> node option" where
  "example_files p =
     (if p = ''/srv/root/.'' then Some (Dir (Some [''a..b.txt'', ''pub'', ''locked'', ''site'',
                                                  ''hello.txt'', ''favicon.ico'', ''logo.png'']))
      else if p = ''/srv/root/a..b.txt'' then Some (File (Some ''two dots''))
      else if p = ''/srv/root/hello.txt'' then Some (File (Some ''hello, world''))
      else if p = ''/srv/root/favicon.ico'' then Some (File (Some ''ICO''))
      else if p = ''/srv/root/logo.png'' then Some (File (Some ''PNG-bytes''))
      else if p = ''/srv/root/pub'' then Some (Dir (Some [''x.txt'', ''y'']))
      else if p = ''/srv/root/pub/x.txt'' then Some (File (Some ''x''))
      else if p = ''/srv/root/pub/y'' then Some (Dir (Some []))
      else if p = ''/srv/root/locked'' then Some (Dir None)
      else if p = ''/srv/root/site'' then Some (Dir (Some [''index.html'']))
      else if p = ''/srv/root/site/index.html'' then Some (File (Some ''<p>site</p>''))
      else None)"

definition example_guess_type :: "str \<Rightarrow> str option" where
  "example_guess_type p =
     (if after_first ''.txt'' p = Some [] then Some ''text/plain''
      else if after_first ''.png'' p = Some [] then Some ''image/png''
      else if after_first ''.html'' p = Some [] then Some ''text/html''
      else None)"

text \<open>The configuration is \<open>default_config\<close>. The requests of the examples carry no
  form field: \<open>parse_qs\<close> gives the empty dictionary, printed \<open>{}\<close>.\<close>

definition default_config :: config where
  "default_config =
     \<lparr> ip_whitelist_enabled = False, ip_whitelist = [''127.0.0.1''],
       browsable_dirs = [''/''], favicon = Some ''/favicon.ico'' \<rparr>"

definition example_env :: env where
  "example_env =
     \<lparr> WEB_ROOT = ''/srv/root'', cwd = ''/srv'', config = default_config,
       files = example_files, unquote_plus = unquote_plus_ascii,
       guess_type = example_guess_type, parse_qs = (\<lambda>s. ''{}'') \<rparr>"

text \<open>A hook that writes its name at the end of a log and then returns or raises.\<close>

definition log_hook :: "str \<Rightarrow> bool \<Rightarrow> str list before_hook" where
  "log_hook name raises request log =
     (if raises then Raised (request, log @ [name]) else Returned (request, log @ [name]))"

text \<open>Two such hooks; the first raises after writing.\<close>

definition hook_A :: "str list before_hook" where
  "hook_A = log_hook ''A'' True"

definition hook_B :: "str list before_hook" where
  "hook_B = log_hook ''B'' False"

definition example_hooks :: "str list plugin_hooks" where
  "example_hooks = \<lparr> before_request = [hook_A, hook_B], after_request = [] \<rparr>"

definition no_hooks :: "unit plugin_hooks" where
  "no_hooks = \<lparr> before_request = [], after_request = [] \<rparr>"

text \<open>The same installation with the whitelist switched on, with a favicon that is not
  \<open>/favicon.ico\<close>, and with directories added to the browsable ones.\<close>

definition whitelist_env :: env where
  "whitelist_env = example_env \<lparr> config := default_config \<lparr> ip_whitelist_enabled := True \<rparr> \<rparr>"

definition logo_env :: env where
  "logo_env = example_env \<lparr> config := default_config \<lparr> favicon := Some ''/logo.png'' \<rparr> \<rparr>"

text \<open>The installation on drive \<open>C:\<close> of a Windows machine.\<close>

definition windows_env :: env where
  "windows_env = example_env \<lparr> WEB_ROOT := win ''C:/srv/root'', cwd := win ''C:/srv'' \<rparr>"

definition browsing_env :: env where
  "browsing_env =
     example_env \<lparr> config := default_config \<lparr> browsable_dirs := [''/'', ''/pub'', ''/locked''] \<rparr> \<rparr>"

section \<open>Notions the properties are stated with\<close>

text \<open>The relative path that \<open>sanitize_path\<close> tests and joins onto the web root.\<close>

definition normalized :: "env \<Rightarrow> str \<Rightarrow> str" where
  "normalized e path =
     normpath (lstrip_slash (unquote_plus e (takeWhile (\<lambda>c. c \<noteq> CHR ''?'') path)))"

text \<open>The segments of a path that name something: the empty segments and the segments
  \<open>.\<close> stay where they are.\<close>

definition components :: "str \<Rightarrow> str list" where
  "components p = filter (\<lambda>c. c \<noteq> [] \<and> c \<noteq> ''.'') (split_on CHR ''/'' p)"

text \<open>\<open>p\<close> is an absolute path that leads through \<open>root\<close> and from there only downwards:
  the root itself or a path below it.\<close>

definition descendant_of :: "str \<Rightarrow> str \<Rightarrow> bool" where
  "descendant_of root p =
     (isabs p \<and> take (length (components root)) (components p) = components root
      \<and> ''..'' \<notin> set (drop (length (components root)) (components p)))"

text \<open>What a hook leaves behind, whether it returned or raised.\<close>

fun settled :: "'a hook_result \<Rightarrow> 'a" where
  "settled (Returned x) = x"
| "settled (Raised x) = x"

text \<open>The hook that does what \<open>hook\<close> does and returns where \<open>hook\<close> raises.\<close>

definition quiet_before :: "'w before_hook \<Rightarrow> 'w before_hook" where
  "quiet_before hook request w = Returned (settled (hook request w))"

definition quiet_after :: "'w after_hook \<Rightarrow> 'w after_hook" where
  "quiet_after hook request response w = Returned (settled (hook request response w))"

definition quiet :: "'w plugin_hooks \<Rightarrow> 'w plugin_hooks" where
  "quiet plugin_hooks =
     \<lparr> before_request = map quiet_before (before_request plugin_hooks),
       after_request = map quiet_after (after_request plugin_hooks) \<rparr>"

text \<open>The number a string of decimal digits denotes: \<open>int(s)\<close>.\<close>

definition decimal_value :: "str \<Rightarrow> nat" where
  "decimal_value s = foldl (\<lambda>n c. 10 * n + (code_point c - 48)) 0 s"

text \<open>The request line and headers of the examples.\<close>

definition example_data :: "str \<Rightarrow> str" where
  "example_data request_line = request_line @ CRLF @ ''Host: example'' @ CRLF @ CRLF"

definition example_request :: "str \<Rightarrow> str \<Rightarrow> request" where
  "example_request m p =
     \<lparr> req_method = m, req_path = p, req_version = ''HTTP/1.1'',
       req_headers = [(''host'', ''example'')], req_body = [] \<rparr>"

section \<open>Splitting and joining\<close>

lemma split_when_not_Nil: "split_when P s \<noteq> []"
  by (induction s) (auto simp: Let_def)

lemma split_when_append:
  "P c \<Longrightarrow> split_when P (a @ c # b) = split_when P a @ split_when P b"
proof (induction a)
  case Nil
  then show ?case by simp
next
  case (Cons x a)
  then show ?case
    using split_when_not_Nil [of P a] by (cases "split_when P a") (auto simp: Let_def)
qed

lemma split_when_no_sep: "t \<in> set (split_when P s) \<Longrightarrow> x \<in> set t \<Longrightarrow> \<not> P x"
proof (induction s arbitrary: t)
  case Nil
  then show ?case by simp
next
  case (Cons y s)
  show ?case
  proof (cases "P y")
    case True
    with Cons show ?thesis by auto
  next
    case False
    obtain r rs where r: "split_when P s = r # rs"
      using split_when_not_Nil [of P s] by (cases "split_when P s") auto
    with False Cons.prems have "t = y # r \<or> t \<in> set rs" by (auto simp: Let_def)
    then show ?thesis
    proof
      assume "t = y # r"
      with Cons.prems(2) have "x = y \<or> x \<in> set r" by auto
      then show ?thesis using False Cons.IH [of r] r by auto
    next
      assume "t \<in> set rs"
      then show ?thesis using Cons.IH [of t] r Cons.prems(2) by auto
    qed
  qed
qed

lemma split_when_hd: "\<exists>b. s = hd (split_when P s) @ b"
proof (induction s)
  case Nil
  then show ?case by simp
next
  case (Cons y s)
  then obtain b where "s = hd (split_when P s) @ b" by blast
  then have "y # s = (y # hd (split_when P s)) @ b" by simp
  then show ?case by (cases "P y") (auto simp: Let_def)
qed

lemma split_when_part: "t \<in> set (split_when P s) \<Longrightarrow> \<exists>a b. s = a @ t @ b"
proof (induction s arbitrary: t)
  case Nil
  then show ?case by simp
next
  case (Cons y s)
  obtain r rs where r: "split_when P s = r # rs"
    using split_when_not_Nil [of P s] by (cases "split_when P s") auto
  have "t = [] \<or> t = y # r \<or> t \<in> set (split_when P s)"
    using Cons.prems r by (cases "P y") (auto simp: Let_def)
  then consider "t = []" | "t = y # r" | "t \<in> set (split_when P s)" by blast
  then show ?case
  proof cases
    case 1
    then show ?thesis by auto
  next
    case 2
    obtain b where "s = r @ b" using split_when_hd [of s P] r by auto
    then have "y # s = [] @ t @ b" using 2 by simp
    then show ?thesis by blast
  next
    case 3
    then obtain a b where "s = a @ t @ b" using Cons.IH by blast
    then have "y # s = (y # a) @ t @ b" by simp
    then show ?thesis by blast
  qed
qed

lemma after_first_occurs: "after_first sub (a @ sub @ b) \<noteq> None"
proof (induction a)
  case Nil
  show ?case
  proof (cases "sub @ b")
    case Nil
    then show ?thesis by simp
  next
    case (Cons x xs)
    have "take (length sub) (sub @ b) = sub" by simp
    then show ?thesis unfolding Cons by simp
  qed
next
  case (Cons x a)
  then show ?case by simp
qed

lemma contains_part: "t \<in> set (split_when P s) \<Longrightarrow> contains t s"
  using split_when_part [of t P s] after_first_occurs by (auto simp: contains_def)

lemma norm_comps_subset:
  "set (norm_comps i acc cs) \<subseteq> set acc \<union> {c \<in> set cs. c \<noteq> []}"
proof (induction cs arbitrary: acc)
  case Nil
  then show ?case by simp
next
  case (Cons c cs)
  have "set (butlast acc) \<subseteq> set acc" by (meson in_set_butlastD subsetI)
  then show ?case using Cons.IH [of acc] Cons.IH [of "acc @ [c]"] Cons.IH [of "butlast acc"]
    by (auto split: if_splits)
qed

lemma hd_join_with: "cs \<noteq> [] \<Longrightarrow> hd cs \<noteq> [] \<Longrightarrow> hd (join_with sep cs) = hd (hd cs)"
  by (induction sep cs rule: join_with.induct) auto

lemma join_with_Nil: "join_with sep cs = [] \<Longrightarrow> cs \<noteq> [] \<Longrightarrow> hd cs = []"
  by (induction sep cs rule: join_with.induct) auto

lemma normpath_not_Nil: "normpath p \<noteq> []"
  by (simp add: normpath_def Let_def)

lemma normpath_relative: "\<not> isabs p \<Longrightarrow> \<not> isabs (normpath p)"
proof (cases "p = []")
  case True
  then show ?thesis by (simp add: normpath_def isabs_def)
next
  case False
  assume rel: "\<not> isabs p"
  define cs where "cs = norm_comps False [] (split_on CHR ''/'' p)"
  have np: "normpath p = (if join_with ''/'' cs = [] then ''.'' else join_with ''/'' cs)"
    using False rel by (simp add: normpath_def Let_def cs_def)
  have sub: "set cs \<subseteq> {c \<in> set (split_on CHR ''/'' p). c \<noteq> []}"
    using norm_comps_subset [of False "[]" "split_on CHR ''/'' p"] by (simp add: cs_def)
  show ?thesis
  proof (cases "join_with ''/'' cs = []")
    case True
    then show ?thesis using np by (simp add: isabs_def)
  next
    case nonempty: False
    then have "cs \<noteq> []" by auto
    then have hd_in: "hd cs \<in> set cs" by simp
    then have hd_ne: "hd cs \<noteq> []" and hd_split: "hd cs \<in> set (split_when (\<lambda>x. x = CHR ''/'') p)"
      using sub by (auto simp: split_on_def)
    have "hd (hd cs) \<in> set (hd cs)" using hd_ne by simp
    then have "hd (hd cs) \<noteq> CHR ''/''"
      using split_when_no_sep [OF hd_split] by blast
    then show ?thesis
      using np nonempty hd_join_with [OF \<open>cs \<noteq> []\<close> hd_ne] by (simp add: isabs_def)
  qed
qed

lemma lstrip_slash_relative: "\<not> isabs (lstrip_slash s)"
  using hd_dropWhile [of "\<lambda>c. c = CHR ''/''" s] by (auto simp: isabs_def lstrip_slash_def)

lemma normalized_relative: "\<not> isabs (normalized e path)" and normalized_not_Nil: "normalized e path \<noteq> []"
  by (simp_all add: normalized_def normpath_relative lstrip_slash_relative normpath_not_Nil)

lemma sanitize_path_normalized:
  "sanitize_path e path =
     (if contains ''..'' (normalized e path) then None
      else Some (join (WEB_ROOT e) (normalized e path)))"
  by (simp add: sanitize_path_def normalized_def Let_def)

lemma components_join:
  assumes "\<not> isabs rel" and "root \<noteq> []"
  shows "components (join root rel) = components root @ components rel"
proof (cases "last root = CHR ''/''")
  case True
  then obtain a where a: "root = a @ ''/''" using assms(2)
    by (metis append_butlast_last_id)
  have "split_on CHR ''/'' root = split_on CHR ''/'' a @ [[]]"
    unfolding a split_on_def by (subst split_when_append) auto
  moreover have "split_on CHR ''/'' (root @ rel) = split_on CHR ''/'' a @ split_on CHR ''/'' rel"
    unfolding a split_on_def using split_when_append [of "\<lambda>x. x = CHR ''/''" "CHR ''/''" a rel] by simp
  ultimately show ?thesis using True assms by (simp add: join_def components_def)
next
  case False
  have "split_on CHR ''/'' (root @ ''/'' @ rel) = split_on CHR ''/'' root @ split_on CHR ''/'' rel"
    unfolding split_on_def using split_when_append [of "\<lambda>x. x = CHR ''/''" "CHR ''/''" root rel] by simp
  then show ?thesis using False assms by (simp add: join_def components_def)
qed

lemma isabs_join: "isabs root \<Longrightarrow> \<not> isabs rel \<Longrightarrow> isabs (join root rel)"
  by (auto simp: join_def isabs_def)

lemma descendant_join:
  assumes "isabs root" and "\<not> isabs rel" and "''..'' \<notin> set (split_on CHR ''/'' rel)"
  shows "descendant_of root (join root rel)"
proof -
  have "root \<noteq> []" using assms(1) by (auto simp: isabs_def)
  then have "components (join root rel) = components root @ components rel"
    using components_join assms(2) by blast
  moreover have "''..'' \<notin> set (components rel)" using assms(3) by (simp add: components_def)
  ultimately show ?thesis using isabs_join [OF assms(1,2)] by (simp add: descendant_of_def)
qed

lemma sanitize_path_descendant:
  assumes "isabs (WEB_ROOT e)" and "sanitize_path e path = Some p"
  shows "descendant_of (WEB_ROOT e) p"
proof -
  have nc: "\<not> contains ''..'' (normalized e path)" and p: "p = join (WEB_ROOT e) (normalized e path)"
    using assms(2) by (auto simp: sanitize_path_normalized split: if_splits)
  have "''..'' \<notin> set (split_on CHR ''/'' (normalized e path))"
    using nc contains_part [of "''..''" "\<lambda>x. x = CHR ''/''"] by (auto simp: split_on_def)
  then show ?thesis unfolding p using descendant_join assms(1) normalized_relative by blast
qed


section \<open>The pipeline\<close>

lemma parse_request_Nil: "parse_request [] = None"
  by (simp add: parse_request_def split_ws_def)

lemma handle_client_pipeline:
  assumes "parse_request data = Some request"
    and "\<not> (ip_whitelist_enabled (config e) \<and> addr \<notin> set (ip_whitelist (config e)))"
    and "run_before (before_request plugin_hooks) request w = (request', w')"
  shows "handle_client e plugin_hooks data addr w =
     (case resolve e request' of
        Sent b \<Rightarrow> ([b], w')
      | Failed \<Rightarrow> ([plain_response 500 ''500 Internal Server Error''], w')
      | Built response \<Rightarrow>
          (case run_after (after_request plugin_hooks) request' response w' of
             (request'', response', w'') \<Rightarrow>
               ([http_response (resp_status response') (resp_headers response')
                   (resp_body response')], w'')))"
proof -
  have "data \<noteq> []" using assms(1) parse_request_Nil by auto
  then show ?thesis using assms by (auto simp: handle_client_def)
qed

lemma resolve_rejected:
  "sanitize_path e (req_path request) = None \<Longrightarrow>
   resolve e request = Sent (plain_response 404 ''404 Not Found'')"
  by (simp add: resolve_def)


section \<open>Containment in the web root\<close>

lemma components_index: "components ''index.html'' = [''index.html'']"
  by (simp add: components_def split_on_def)

lemma descendant_index:
  assumes "descendant_of root p"
  shows "descendant_of root (join p ''index.html'')"
proof -
  have abs: "isabs p" and tk: "take (length (components root)) (components p) = components root"
    and dd: "''..'' \<notin> set (drop (length (components root)) (components p))"
    using assms by (auto simp: descendant_of_def)
  have ne: "p \<noteq> []" using abs by (auto simp: isabs_def)
  have rel: "\<not> isabs ''index.html''" by (simp add: isabs_def)
  have comps: "components (join p ''index.html'') = components p @ [''index.html'']"
    using components_join [OF rel ne] by (simp add: components_index)
  have "length (take (length (components root)) (components p)) = length (components root)"
    using tk by simp
  then have le: "length (components root) \<le> length (components p)" by simp
  show ?thesis
    unfolding descendant_of_def comps using isabs_join [OF abs rel] tk dd le by simp
qed

lemma sanitize_path_files: "sanitize_path (e\<lparr>files := fs\<rparr>) path = sanitize_path e path"
  by (simp add: sanitize_path_def Let_def)

lemma rel_path_of_files: "rel_path_of (e\<lparr>files := fs\<rparr>) path = rel_path_of e path"
  by (simp add: rel_path_of_def)

lemma dispatch_files:
  "fs path = files e path \<Longrightarrow> dispatch (e\<lparr>files := fs\<rparr>) request path = dispatch e request path"
  by (simp add: dispatch_def isfile_def read_file_def Let_def cong: option.case_cong)

lemma handle_directory_files:
  "fs path = files e path \<Longrightarrow>
   handle_directory (e\<lparr>files := fs\<rparr>) path r = handle_directory e path r"
  by (simp add: handle_directory_def listdir_def)

lemma serve_files:
  assumes "fs path = files e path"
    and "fs (join path ''index.html'') = files e (join path ''index.html'')"
  shows "serve (e\<lparr>files := fs\<rparr>) request path = serve e request path"
  using assms
  by (simp add: serve_def isdir_def isfile_def Let_def dispatch_files handle_directory_files
      rel_path_of_files)

lemma favicon_file_files:
  assumes "\<And>p. descendant_of (WEB_ROOT e) p \<Longrightarrow> fs p = files e p" and "isabs (WEB_ROOT e)"
  shows "favicon_file (e\<lparr>files := fs\<rparr>) request = favicon_file e request"
proof -
  have "isfile (e\<lparr>files := fs\<rparr>) p = isfile e p" if "sanitize_path e fav = Some p" for fav p
    using assms(1) [OF sanitize_path_descendant [OF assms(2) that]] by (simp add: isfile_def)
  then show ?thesis
    by (auto simp: favicon_file_def sanitize_path_files split: option.splits)
qed

lemma favicon_file_Some:
  "favicon_file e request = Some fp \<Longrightarrow>
   \<exists>fav. req_path request = ''/favicon.ico'' \<and> favicon (config e) = Some fav \<and> fav \<noteq> []
        \<and> sanitize_path e fav = Some fp \<and> fp \<noteq> [] \<and> isfile e fp"
  by (cases "favicon (config e)") (auto simp: favicon_file_def split: if_splits option.splits)

lemma resolve_files:
  assumes agree: "\<And>p. descendant_of (WEB_ROOT e) p \<Longrightarrow> fs p = files e p"
    and root: "isabs (WEB_ROOT e)"
  shows "resolve (e\<lparr>files := fs\<rparr>) request = resolve e request"
proof (cases "sanitize_path e (req_path request)")
  case None
  then show ?thesis by (simp add: resolve_def sanitize_path_files)
next
  case (Some p)
  have dp: "descendant_of (WEB_ROOT e) p"
    using sanitize_path_descendant [OF root Some] .
  have sv: "serve (e\<lparr>files := fs\<rparr>) request p = serve e request p"
    using serve_files agree [OF dp] agree [OF descendant_index [OF dp]] by simp
  have fav: "favicon_file (e\<lparr>files := fs\<rparr>) request = favicon_file e request"
    using favicon_file_files agree root by blast
  have rd: "read_file (e\<lparr>files := fs\<rparr>) fp = read_file e fp"
    if fv: "favicon_file e request = Some fp" for fp
  proof -
    obtain fv where "sanitize_path e fv = Some fp"
      using favicon_file_Some [OF fv] by blast

    then have "descendant_of (WEB_ROOT e) fp" using sanitize_path_descendant root by blast
    then show ?thesis using agree by (simp add: read_file_def)
  qed
  show ?thesis
  proof (cases "favicon_file e request")
    case None
    then show ?thesis using Some sv fav by (simp add: resolve_def sanitize_path_files)
  next
    case (Some fp)
    then show ?thesis using \<open>sanitize_path e (req_path request) = Some p\<close> fav rd [OF Some]
      by (simp add: resolve_def sanitize_path_files)
  qed
qed

lemma handle_client_files:
  assumes "\<And>p. descendant_of (WEB_ROOT e) p \<Longrightarrow> fs p = files e p" and "isabs (WEB_ROOT e)"
  shows "handle_client (e\<lparr>files := fs\<rparr>) plugin_hooks data addr w
         = handle_client e plugin_hooks data addr w"
  using resolve_files [OF assms]
  by (simp add: handle_client_def cong: option.case_cong prod.case_cong if_cong)

text \<open>
  Where \<open>os.path\<close> is \<open>posixpath\<close> and the web root is absolute, \<open>sanitize_path\<close>
  fails or returns an absolute path that is the web root or lies below it. A request
  path whose normalized form has a segment \<open>..\<close> is refused, and a request that reaches
  path resolution with such a path is answered 404. What the handler writes depends on
  the file system only at paths in the web root: changing the file system anywhere else
  changes no response. (On Windows the same lines do not contain the path: see the
  last theorem of this theory.)
\<close>

theorem sanitize_path_contained:
  assumes root: "isabs (WEB_ROOT e)"
  shows "(case sanitize_path e path of None \<Rightarrow> True | Some p \<Rightarrow> descendant_of (WEB_ROOT e) p)
    \<and> (''..'' \<in> set (split_on CHR ''/'' (normalized e path)) \<longrightarrow> sanitize_path e path = None)
    \<and> (''..'' \<in> set (split_on CHR ''/'' (normalized e (req_path request')))
        \<and> parse_request data = Some request
        \<and> \<not> (ip_whitelist_enabled (config e) \<and> addr \<notin> set (ip_whitelist (config e)))
        \<and> run_before (before_request plugin_hooks) request w = (request', w')
        \<longrightarrow> handle_client e plugin_hooks data addr w
            = ([plain_response 404 ''404 Not Found''], w'))
    \<and> ((\<forall>p. descendant_of (WEB_ROOT e) p \<longrightarrow> fs p = files e p)
        \<longrightarrow> handle_client (e\<lparr>files := fs\<rparr>) plugin_hooks data addr w
            = handle_client e plugin_hooks data addr w)"
proof (intro conjI impI)
  show "case sanitize_path e path of None \<Rightarrow> True | Some p \<Rightarrow> descendant_of (WEB_ROOT e) p"
    using sanitize_path_descendant [OF root] by (cases "sanitize_path e path") auto
next
  assume "''..'' \<in> set (split_on CHR ''/'' (normalized e path))"
  then have "''..'' \<in> set (split_when (\<lambda>x. x = CHR ''/'') (normalized e path))"
    by (simp add: split_on_def)
  then have "contains ''..'' (normalized e path)"
    by (rule contains_part)
  then show "sanitize_path e path = None" by (simp add: sanitize_path_normalized)
next
  assume a: "''..'' \<in> set (split_on CHR ''/'' (normalized e (req_path request')))
        \<and> parse_request data = Some request
        \<and> \<not> (ip_whitelist_enabled (config e) \<and> addr \<notin> set (ip_whitelist (config e)))
        \<and> run_before (before_request plugin_hooks) request w = (request', w')"
  then have "''..'' \<in> set (split_when (\<lambda>x. x = CHR ''/'') (normalized e (req_path request')))"
    by (simp add: split_on_def)
  then have "contains ''..'' (normalized e (req_path request'))"
    by (rule contains_part)
  then have "resolve e request' = Sent (plain_response 404 ''404 Not Found'')"
    by (simp add: resolve_rejected sanitize_path_normalized)
  then show "handle_client e plugin_hooks data addr w = ([plain_response 404 ''404 Not Found''], w')"
    using a handle_client_pipeline [of data request e addr plugin_hooks w request' w'] by simp
next
  assume "\<forall>p. descendant_of (WEB_ROOT e) p \<longrightarrow> fs p = files e p"
  then have "\<And>p. descendant_of (WEB_ROOT e) p \<Longrightarrow> fs p = files e p" by simp
  then show "handle_client (e\<lparr>files := fs\<rparr>) plugin_hooks data addr w
            = handle_client e plugin_hooks data addr w"
    by (rule handle_client_files [OF _ root])
qed

lemma example_hooks_run:
  "run_before (before_request example_hooks) request [] = (request, [''A'', ''B''])"
  by (simp add: example_hooks_def hook_A_def hook_B_def log_hook_def)

theorem sanitize_path_contained_witness:
  "isabs (WEB_ROOT example_env)
   \<and> sanitize_path example_env ''/pub/x.txt'' = Some ''/srv/root/pub/x.txt''
   \<and> descendant_of (WEB_ROOT example_env) ''/srv/root/pub/x.txt''
   \<and> ''..'' \<in> set (split_on CHR ''/'' (normalized example_env ''/%2e%2e/etc/passwd''))
   \<and> sanitize_path example_env ''/%2e%2e/etc/passwd'' = None
   \<and> handle_client example_env example_hooks
        (example_data ''GET /%2e%2e/etc/passwd HTTP/1.1'') ''10.0.0.9'' []
      = ([plain_response 404 ''404 Not Found''], [''A'', ''B''])"
proof -
  have root: "isabs (WEB_ROOT example_env)" by code_simp
  have ok: "sanitize_path example_env ''/pub/x.txt'' = Some ''/srv/root/pub/x.txt''" by code_simp
  have seg: "''..'' \<in> set (split_on CHR ''/'' (normalized example_env ''/%2e%2e/etc/passwd''))"
    by code_simp
  have parse: "parse_request (example_data ''GET /%2e%2e/etc/passwd HTTP/1.1'')
               = Some (example_request ''GET'' ''/%2e%2e/etc/passwd'')"
    by code_simp
  have allow: "\<not> (ip_whitelist_enabled (config example_env)
                 \<and> ''10.0.0.9'' \<notin> set (ip_whitelist (config example_env)))"
    by code_simp
  have path: "req_path (example_request ''GET'' ''/%2e%2e/etc/passwd'') = ''/%2e%2e/etc/passwd''"
    by (simp add: example_request_def)
  have run: "run_before (before_request example_hooks)
               (example_request ''GET'' ''/%2e%2e/etc/passwd'') []
             = (example_request ''GET'' ''/%2e%2e/etc/passwd'', [''A'', ''B''])"
    by (rule example_hooks_run)
  have seg': "''..'' \<in> set (split_on CHR ''/''
                (normalized example_env (req_path (example_request ''GET'' ''/%2e%2e/etc/passwd''))))"
    unfolding path by (rule seg)
  note a = sanitize_path_contained [OF root, of "''/pub/x.txt''"]
  note b = sanitize_path_contained [OF root, of "''/%2e%2e/etc/passwd''"
      "example_request ''GET'' ''/%2e%2e/etc/passwd''"
      "example_data ''GET /%2e%2e/etc/passwd HTTP/1.1''"
      "example_request ''GET'' ''/%2e%2e/etc/passwd''" "''10.0.0.9''" example_hooks "[]"
      "[''A'', ''B'']"]
  have d: "descendant_of (WEB_ROOT example_env) ''/srv/root/pub/x.txt''"
    using a [THEN conjunct1] unfolding ok by simp
  have n: "sanitize_path example_env ''/%2e%2e/etc/passwd'' = None"
    by (rule b [THEN conjunct2, THEN conjunct1, THEN mp, OF seg])
  have h: "handle_client example_env example_hooks
        (example_data ''GET /%2e%2e/etc/passwd HTTP/1.1'') ''10.0.0.9'' []
      = ([plain_response 404 ''404 Not Found''], [''A'', ''B''])"
    by (rule b [THEN conjunct2, THEN conjunct2, THEN conjunct1, THEN mp,
          OF conjI [OF seg' conjI [OF parse conjI [OF allow run]]]])
  show ?thesis by (intro conjI root ok d seg n h)
qed

lemma after_first_Some: "after_first sub s = Some r \<Longrightarrow> \<exists>a. s = a @ sub @ r"
proof (induction s)
  case Nil
  then show ?case by (auto split: if_splits)
next
  case (Cons x s)
  show ?case
  proof (cases "take (length sub) (x # s) = sub")
    case True
    then have "r = drop (length sub) (x # s)" using Cons.prems by simp
    then have "x # s = [] @ sub @ r" using True by (metis append_Nil append_take_drop_id)
    then show ?thesis by blast
  next
    case False
    then have "after_first sub s = Some r" using Cons.prems by simp
    then obtain a where "s = a @ sub @ r" using Cons.IH by blast
    then have "x # s = (x # a) @ sub @ r" by simp
    then show ?thesis by blast
  qed
qed

lemma contains_iff: "contains sub s \<longleftrightarrow> (\<exists>a b. s = a @ sub @ b)"
proof
  assume "contains sub s"
  then obtain r where "after_first sub s = Some r" by (auto simp: contains_def)
  then show "\<exists>a b. s = a @ sub @ b" using after_first_Some by blast
next
  assume "\<exists>a b. s = a @ sub @ b"
  then show "contains sub s" using after_first_occurs by (auto simp: contains_def)
qed

text \<open>
  C10. \<open>sanitize_path\<close> fails exactly when the normalized relative path has two dots in
  a row anywhere in it, inside a file name too; a request that reaches path resolution
  with such a path is answered 404, whatever the file system holds.
\<close>

theorem double_dot_rejected:
  "(contains ''..'' (normalized e path) \<longleftrightarrow> (\<exists>a b. normalized e path = a @ ''..'' @ b))
   \<and> (sanitize_path e path = None \<longleftrightarrow> contains ''..'' (normalized e path))
   \<and> (contains ''..'' (normalized e (req_path request'))
       \<and> parse_request data = Some request
       \<and> \<not> (ip_whitelist_enabled (config e) \<and> addr \<notin> set (ip_whitelist (config e)))
       \<and> run_before (before_request plugin_hooks) request w = (request', w')
       \<longrightarrow> handle_client e plugin_hooks data addr w
           = ([plain_response 404 ''404 Not Found''], w'))"
proof (intro conjI impI)
  show "contains ''..'' (normalized e path) \<longleftrightarrow> (\<exists>a b. normalized e path = a @ ''..'' @ b)"
    by (rule contains_iff)
next
  show "sanitize_path e path = None \<longleftrightarrow> contains ''..'' (normalized e path)"
    by (simp add: sanitize_path_normalized)
next
  assume a: "contains ''..'' (normalized e (req_path request'))
       \<and> parse_request data = Some request
       \<and> \<not> (ip_whitelist_enabled (config e) \<and> addr \<notin> set (ip_whitelist (config e)))
       \<and> run_before (before_request plugin_hooks) request w = (request', w')"
  then have "resolve e request' = Sent (plain_response 404 ''404 Not Found'')"
    by (simp add: resolve_rejected sanitize_path_normalized)
  then show "handle_client e plugin_hooks data addr w = ([plain_response 404 ''404 Not Found''], w')"
    using a handle_client_pipeline [of data request e addr plugin_hooks w request' w'] by simp
qed

text \<open>
  The file \<open>a..b.txt\<close> is a regular file of the web root and its name has no segment
  \<open>..\<close>; the request for it is answered 404.
\<close>

theorem double_dot_rejected_witness:
  "files example_env ''/srv/root/a..b.txt'' = Some (File (Some ''two dots''))
   \<and> normalized example_env ''/a..b.txt'' = ''a..b.txt''
   \<and> ''..'' \<notin> set (split_on CHR ''/'' (normalized example_env ''/a..b.txt''))
   \<and> contains ''..'' (normalized example_env ''/a..b.txt'')
   \<and> sanitize_path example_env ''/a..b.txt'' = None
   \<and> handle_client example_env example_hooks
        (example_data ''GET /a..b.txt HTTP/1.1'') ''10.0.0.9'' []
      = ([plain_response 404 ''404 Not Found''], [''A'', ''B''])"
proof -
  have present: "files example_env ''/srv/root/a..b.txt'' = Some (File (Some ''two dots''))"
    by code_simp
  have norm: "normalized example_env ''/a..b.txt'' = ''a..b.txt''" by code_simp
  have noseg: "''..'' \<notin> set (split_on CHR ''/'' (normalized example_env ''/a..b.txt''))"
    by code_simp
  have sub: "contains ''..'' (normalized example_env ''/a..b.txt'')" by code_simp
  have parse: "parse_request (example_data ''GET /a..b.txt HTTP/1.1'')
               = Some (example_request ''GET'' ''/a..b.txt'')"
    by code_simp
  have allow: "\<not> (ip_whitelist_enabled (config example_env)
                 \<and> ''10.0.0.9'' \<notin> set (ip_whitelist (config example_env)))"
    by code_simp
  have path: "req_path (example_request ''GET'' ''/a..b.txt'') = ''/a..b.txt''"
    by (simp add: example_request_def)
  have run: "run_before (before_request example_hooks) (example_request ''GET'' ''/a..b.txt'') []
             = (example_request ''GET'' ''/a..b.txt'', [''A'', ''B''])"
    by (rule example_hooks_run)
  have sub': "contains ''..'' (normalized example_env (req_path (example_request ''GET'' ''/a..b.txt'')))"
    unfolding path by (rule sub)
  note t = double_dot_rejected [of example_env "''/a..b.txt''" "example_request ''GET'' ''/a..b.txt''"
      "example_data ''GET /a..b.txt HTTP/1.1''" "example_request ''GET'' ''/a..b.txt''"
      "''10.0.0.9''" example_hooks "[]" "[''A'', ''B'']"]
  have none: "sanitize_path example_env ''/a..b.txt'' = None"
    by (rule t [THEN conjunct2, THEN conjunct1, THEN iffD2, OF sub])
  have h: "handle_client example_env example_hooks
        (example_data ''GET /a..b.txt HTTP/1.1'') ''10.0.0.9'' []
      = ([plain_response 404 ''404 Not Found''], [''A'', ''B''])"
    by (rule t [THEN conjunct2, THEN conjunct2, THEN mp,
          OF conjI [OF sub' conjI [OF parse conjI [OF allow run]]]])
  show ?thesis by (intro conjI present norm noseg sub none h)
qed

text \<open>
  C2, as stated, fails: the request is decoded before the whitelist is looked at. With
  the whitelist on and an address outside it, a buffer that is no request is answered
  400, and an empty buffer is not answered.
\<close>

theorem whitelist_before_decoding_counterexample:
  "ip_whitelist_enabled (config whitelist_env)
   \<and> ''10.0.0.9'' \<notin> set (ip_whitelist (config whitelist_env))
   \<and> handle_client whitelist_env example_hooks ''hello'' ''10.0.0.9'' []
      = ([http_response 400 [(''Content-Length'', ''0'')] []], [])
   \<and> http_response 400 [(''Content-Length'', ''0'')] [] \<noteq> plain_response 403 ''403 Forbidden''
   \<and> handle_client whitelist_env example_hooks [] ''10.0.0.9'' [] = ([], [])"
  by code_simp

text \<open>
  C2, amended. With the whitelist on and an address outside it, a buffer that decodes to
  a request is answered 403, a buffer that does not is answered 400, and an empty buffer
  is not answered. In each case no hook is called: the hooks' state is the one the
  handler was given, whatever the hooks are.
\<close>

theorem whitelist_rejects:
  assumes "ip_whitelist_enabled (config e)" and "addr \<notin> set (ip_whitelist (config e))"
  shows "handle_client e plugin_hooks data addr w =
     ((if data = [] then []
       else case parse_request data of
              None \<Rightarrow> [http_response 400 [(''Content-Length'', ''0'')] []]
            | Some request \<Rightarrow> [plain_response 403 ''403 Forbidden'']), w)"
  using assms by (simp add: handle_client_def split: option.splits)

text \<open>
  The same request from an address outside the whitelist and from one inside: outside,
  the log stays empty; inside, both hooks have written.
\<close>

theorem whitelist_rejects_witness:
  "ip_whitelist_enabled (config whitelist_env)
   \<and> ''10.0.0.9'' \<notin> set (ip_whitelist (config whitelist_env))
   \<and> parse_request (example_data ''GET /hello.txt HTTP/1.1'')
      = Some (example_request ''GET'' ''/hello.txt'')
   \<and> handle_client whitelist_env example_hooks
        (example_data ''GET /hello.txt HTTP/1.1'') ''10.0.0.9'' []
      = ([plain_response 403 ''403 Forbidden''], [])
   \<and> handle_client whitelist_env example_hooks
        (example_data ''GET /hello.txt HTTP/1.1'') ''127.0.0.1'' []
      = ([http_response 200 [(''Content-Type'', ''text/plain''), (''Content-Length'', ''12'')]
            ''hello, world''], [''A'', ''B''])"
proof -
  have on: "ip_whitelist_enabled (config whitelist_env)" by code_simp
  have out: "''10.0.0.9'' \<notin> set (ip_whitelist (config whitelist_env))" by code_simp
  have parse: "parse_request (example_data ''GET /hello.txt HTTP/1.1'')
      = Some (example_request ''GET'' ''/hello.txt'')" by code_simp
  have ne: "example_data ''GET /hello.txt HTTP/1.1'' \<noteq> []" by code_simp
  have h: "handle_client whitelist_env example_hooks
        (example_data ''GET /hello.txt HTTP/1.1'') ''10.0.0.9'' []
      = ([plain_response 403 ''403 Forbidden''], [])"
    unfolding whitelist_rejects [OF on out] parse using ne by simp
  have inside: "handle_client whitelist_env example_hooks
        (example_data ''GET /hello.txt HTTP/1.1'') ''127.0.0.1'' []
      = ([http_response 200 [(''Content-Type'', ''text/plain''), (''Content-Length'', ''12'')]
            ''hello, world''], [''A'', ''B''])" by code_simp
  show ?thesis by (intro conjI on out parse h inside)
qed

section \<open>Decoding\<close>

lemma parse_request_None_iff:
  "parse_request data = None \<longleftrightarrow> length (split_ws (hd (split_crlf data))) \<noteq> 3"
proof (cases "split_ws (hd (split_crlf data))")
  case Nil
  then show ?thesis by (simp add: parse_request_def)
next
  case (Cons a as)
  note l1 = Cons
  show ?thesis
  proof (cases as)
    case Nil
    then show ?thesis using l1 by (simp add: parse_request_def)
  next
    case (Cons b bs)
    note l2 = Cons
    show ?thesis
    proof (cases bs)
      case Nil
      then show ?thesis using l1 l2 by (simp add: parse_request_def)
    next
      case (Cons c cs)
      then show ?thesis using l1 l2 by (cases cs) (simp_all add: parse_request_def)
    qed
  qed
qed

lemma parse_request_headers:
  "parse_request data = Some request \<Longrightarrow>
   req_headers request = parse_headers [] (tl (split_crlf data))"
  by (auto simp: parse_request_def Let_def split: list.splits)

lemma parse_headers_skip:
  assumes "CHR '':'' \<notin> set line" and "line \<noteq> []"
  shows "parse_headers hs (pre @ line # post) = parse_headers hs (pre @ post)"
proof (induction pre arbitrary: hs)
  case Nil
  then show ?case using assms by (simp add: split_colon_def)
next
  case (Cons l pre)
  then show ?case by (simp add: Let_def)
qed

text \<open>
  C7, as stated, fails on the empty buffer: its request line splits into no token, so
  \<open>parse_request\<close> would fail on it, and the handler returns before decoding and
  writes nothing, not a 400 response.
\<close>

theorem empty_read_counterexample:
  "parse_request [] = None
   \<and> length (split_ws (hd (split_crlf []))) = 0
   \<and> handle_client example_env example_hooks [] ''10.0.0.9'' [] = ([], [])"
  by code_simp

text \<open>
  C7, amended. \<open>parse_request\<close> fails exactly when the request line, the text before
  the first CR LF, does not split at whitespace into three tokens. The headers of a
  decoded request are read from the lines that follow, where a line that is not empty
  and has no colon changes nothing. On a buffer that is not empty a decoding failure is
  answered 400 with an empty body; on the empty buffer nothing is written.
\<close>

theorem parse_request_fails_iff:
  "(parse_request data = None \<longleftrightarrow> length (split_ws (hd (split_crlf data))) \<noteq> 3)
   \<and> (parse_request data = Some request
       \<longrightarrow> req_headers request = parse_headers [] (tl (split_crlf data)))
   \<and> (CHR '':'' \<notin> set line \<and> line \<noteq> []
       \<longrightarrow> parse_headers hs (pre @ line # post) = parse_headers hs (pre @ post))
   \<and> (data \<noteq> [] \<and> parse_request data = None
       \<longrightarrow> handle_client e plugin_hooks data addr w
           = ([http_response 400 [(''Content-Length'', ''0'')] []], w))
   \<and> (data = [] \<longrightarrow> handle_client e plugin_hooks data addr w = ([], w))"
proof (intro conjI impI)
  show "parse_request data = None \<longleftrightarrow> length (split_ws (hd (split_crlf data))) \<noteq> 3"
    by (rule parse_request_None_iff)
next
  assume "parse_request data = Some request"
  then show "req_headers request = parse_headers [] (tl (split_crlf data))"
    by (rule parse_request_headers)
next
  assume "CHR '':'' \<notin> set line \<and> line \<noteq> []"
  then show "parse_headers hs (pre @ line # post) = parse_headers hs (pre @ post)"
    using parse_headers_skip by blast
next
  assume "data \<noteq> [] \<and> parse_request data = None"
  then show "handle_client e plugin_hooks data addr w
           = ([http_response 400 [(''Content-Length'', ''0'')] []], w)"
    by (simp add: handle_client_def)
next
  assume "data = []"
  then show "handle_client e plugin_hooks data addr w = ([], w)"
    by (simp add: handle_client_def)
qed

text \<open>
  A request line of two tokens, the bytes of the 400 response, and a header line with no
  colon between two that have one.
\<close>

theorem parse_request_fails_iff_witness:
  "parse_request ''GET /hello.txt'' = None
   \<and> length (split_ws (hd (split_crlf ''GET /hello.txt''))) = 2
   \<and> handle_client example_env example_hooks ''GET /hello.txt'' ''10.0.0.9'' []
      = ([http_response 400 [(''Content-Length'', ''0'')] []], [])
   \<and> http_response 400 [(''Content-Length'', ''0'')] []
      = ''HTTP/1.1 400 Bad Request'' @ CRLF @ ''Content-Length: 0'' @ CRLF @ CRLF
   \<and> parse_headers [] ([''Host: a''] @ ''no colon here'' # [''Accept: b''])
      = [(''host'', ''a''), (''accept'', ''b'')]
   \<and> req_headers (example_request ''GET'' ''/hello.txt'') = [(''host'', ''example'')]"
proof -
  note t = parse_request_fails_iff [of "''GET /hello.txt''" "example_request ''GET'' ''/hello.txt''"
      "''no colon here''" "[]" "[''Host: a'']" "[''Accept: b'']" example_env example_hooks
      "''10.0.0.9''" "[]"]
  have two: "length (split_ws (hd (split_crlf ''GET /hello.txt''))) = 2" by code_simp
  then have "length (split_ws (hd (split_crlf ''GET /hello.txt''))) \<noteq> 3" by simp
  then have none: "parse_request ''GET /hello.txt'' = None"
    by (rule t [THEN conjunct1, THEN iffD2])
  have ne: "''GET /hello.txt'' \<noteq> []" by simp
  have h: "handle_client example_env example_hooks ''GET /hello.txt'' ''10.0.0.9'' []
      = ([http_response 400 [(''Content-Length'', ''0'')] []], [])"
    by (rule t [THEN conjunct2, THEN conjunct2, THEN conjunct2, THEN conjunct1, THEN mp,
          OF conjI [OF ne none]])
  have bytes: "http_response 400 [(''Content-Length'', ''0'')] []
      = ''HTTP/1.1 400 Bad Request'' @ CRLF @ ''Content-Length: 0'' @ CRLF @ CRLF"
    by code_simp
  have nocolon: "CHR '':'' \<notin> set ''no colon here'' \<and> ''no colon here'' \<noteq> []" by simp
  have "parse_headers [] ([''Host: a''] @ ''no colon here'' # [''Accept: b''])
        = parse_headers [] ([''Host: a''] @ [''Accept: b''])"
    by (rule t [THEN conjunct2, THEN conjunct2, THEN conjunct1, THEN mp, OF nocolon])
  also have "\<dots> = [(''host'', ''a''), (''accept'', ''b'')]" by code_simp
  finally have skip: "parse_headers [] ([''Host: a''] @ ''no colon here'' # [''Accept: b''])
      = [(''host'', ''a''), (''accept'', ''b'')]" .
  have hdr: "req_headers (example_request ''GET'' ''/hello.txt'') = [(''host'', ''example'')]"
    by (simp add: example_request_def)
  show ?thesis by (intro conjI none two h bytes skip hdr)
qed

section \<open>Hooks\<close>

lemma run_before_append:
  "run_before (hooks1 @ hooks2) request w =
     (case run_before hooks1 request w of (request1, w1) \<Rightarrow> run_before hooks2 request1 w1)"
  by (induction hooks1 arbitrary: request w) (auto split: hook_result.splits)

lemma run_after_append:
  "run_after (hooks1 @ hooks2) request response w =
     (case run_after hooks1 request response w of
        (request1, response1, w1) \<Rightarrow> run_after hooks2 request1 response1 w1)"
  by (induction hooks1 arbitrary: request response w) (auto split: hook_result.splits)

lemma run_before_settled:
  "run_before (hook # hooks) request w =
     (case settled (hook request w) of (request1, w1) \<Rightarrow> run_before hooks request1 w1)"
  by (cases "hook request w") auto

lemma run_after_settled:
  "run_after (hook # hooks) request response w =
     (case settled (hook request response w) of
        (request1, response1, w1) \<Rightarrow> run_after hooks request1 response1 w1)"
  by (cases "hook request response w") auto

lemma run_before_quiet: "run_before (map quiet_before hooks) request w = run_before hooks request w"
proof (induction hooks arbitrary: request w)
  case Nil
  then show ?case by simp
next
  case (Cons hook hooks)
  then show ?case by (cases "hook request w") (auto simp: quiet_before_def)
qed

lemma run_after_quiet:
  "run_after (map quiet_after hooks) request response w = run_after hooks request response w"
proof (induction hooks arbitrary: request response w)
  case Nil
  then show ?case by simp
next
  case (Cons hook hooks)
  then show ?case by (cases "hook request response w") (auto simp: quiet_after_def)
qed

lemma handle_client_quiet:
  "handle_client e (quiet plugin_hooks) data addr w = handle_client e plugin_hooks data addr w"
proof -
  have b: "before_request (quiet plugin_hooks) = map quiet_before (before_request plugin_hooks)"
    and a: "after_request (quiet plugin_hooks) = map quiet_after (after_request plugin_hooks)"
    by (simp_all add: quiet_def)
  show ?thesis
    unfolding handle_client_def a b run_before_quiet run_after_quiet ..
qed

lemma run_before_log_hooks:
  "run_before (map (\<lambda>(name, raises). log_hook name raises) named) request log
   = (request, log @ map fst named)"
  by (induction named arbitrary: log) (auto simp: log_hook_def)

text \<open>
  C6. Two hooks registered as A then B that write in a shared log leave the log
  \<open>[A, B]\<close>, whether or not either raises, and so for any number of them. The hooks
  of a list run one after the other in the order of the list, each from what the one
  before left, whether it returned or raised; the same holds after resolution. Turning
  every raising hook into one that returns changes nothing of what the handler does,
  and a request that is decoded and allowed is answered from \<open>resolve\<close> on the
  request as the hooks left it: a hook that raises is no branch of the handler.
\<close>

theorem hooks_in_order_and_isolated:
  "run_before [log_hook a raises_a, log_hook b raises_b] request log = (request, log @ [a, b])
   \<and> run_before (map (\<lambda>(name, raises). log_hook name raises) named) request log
     = (request, log @ map fst named)
   \<and> run_before (hooks1 @ hooks2) request1 w =
       (case run_before hooks1 request1 w of (request2, w2) \<Rightarrow> run_before hooks2 request2 w2)
   \<and> run_before (hook # hooks) request1 w =
       (case settled (hook request1 w) of (request2, w2) \<Rightarrow> run_before hooks request2 w2)
   \<and> run_after (after1 @ after2) request1 response w =
       (case run_after after1 request1 response w of
          (request2, response2, w2) \<Rightarrow> run_after after2 request2 response2 w2)
   \<and> run_after (after # afters) request1 response w =
       (case settled (after request1 response w) of
          (request2, response2, w2) \<Rightarrow> run_after afters request2 response2 w2)
   \<and> handle_client e (quiet plugin_hooks) data addr w = handle_client e plugin_hooks data addr w
   \<and> (parse_request data = Some request1
       \<and> \<not> (ip_whitelist_enabled (config e) \<and> addr \<notin> set (ip_whitelist (config e)))
       \<and> run_before (before_request plugin_hooks) request1 w = (request', w')
       \<longrightarrow> handle_client e plugin_hooks data addr w =
           (case resolve e request' of
              Sent b \<Rightarrow> ([b], w')
            | Failed \<Rightarrow> ([plain_response 500 ''500 Internal Server Error''], w')
            | Built response \<Rightarrow>
                (case run_after (after_request plugin_hooks) request' response w' of
                   (request'', response', w'') \<Rightarrow>
                     ([http_response (resp_status response') (resp_headers response')
                         (resp_body response')], w''))))"
proof (intro conjI impI)
  show "run_before [log_hook a raises_a, log_hook b raises_b] request log = (request, log @ [a, b])"
    by (simp add: log_hook_def)
next
  show "run_before (map (\<lambda>(name, raises). log_hook name raises) named) request log
     = (request, log @ map fst named)"
    by (rule run_before_log_hooks)
next
  show "run_before (hooks1 @ hooks2) request1 w =
       (case run_before hooks1 request1 w of (request2, w2) \<Rightarrow> run_before hooks2 request2 w2)"
    by (rule run_before_append)
next
  show "run_before (hook # hooks) request1 w =
       (case settled (hook request1 w) of (request2, w2) \<Rightarrow> run_before hooks request2 w2)"
    by (rule run_before_settled)
next
  show "run_after (after1 @ after2) request1 response w =
       (case run_after after1 request1 response w of
          (request2, response2, w2) \<Rightarrow> run_after after2 request2 response2 w2)"
    by (rule run_after_append)
next
  show "run_after (after # afters) request1 response w =
       (case settled (after request1 response w) of
          (request2, response2, w2) \<Rightarrow> run_after afters request2 response2 w2)"
    by (rule run_after_settled)
next
  show "handle_client e (quiet plugin_hooks) data addr w = handle_client e plugin_hooks data addr w"
    by (rule handle_client_quiet)
next
  assume a: "parse_request data = Some request1
       \<and> \<not> (ip_whitelist_enabled (config e) \<and> addr \<notin> set (ip_whitelist (config e)))
       \<and> run_before (before_request plugin_hooks) request1 w = (request', w')"
  show "handle_client e plugin_hooks data addr w =
           (case resolve e request' of
              Sent b \<Rightarrow> ([b], w')
            | Failed \<Rightarrow> ([plain_response 500 ''500 Internal Server Error''], w')
            | Built response \<Rightarrow>
                (case run_after (after_request plugin_hooks) request' response w' of
                   (request'', response', w'') \<Rightarrow>
                     ([http_response (resp_status response') (resp_headers response')
                         (resp_body response')], w'')))"
    by (rule handle_client_pipeline [OF a [THEN conjunct1] a [THEN conjunct2, THEN conjunct1]
          a [THEN conjunct2, THEN conjunct2]])
qed


text \<open>
  Hook A raises after writing in the log; B still writes, and the file is served.
\<close>

theorem hooks_in_order_and_isolated_witness:
  "hook_A (example_request ''GET'' ''/hello.txt'') [] = Raised (example_request ''GET'' ''/hello.txt'', [''A''])
   \<and> run_before (before_request example_hooks) (example_request ''GET'' ''/hello.txt'') []
     = (example_request ''GET'' ''/hello.txt'', [''A'', ''B''])
   \<and> handle_client example_env example_hooks
        (example_data ''GET /hello.txt HTTP/1.1'') ''10.0.0.9'' []
     = ([http_response 200 [(''Content-Type'', ''text/plain''), (''Content-Length'', ''12'')]
           ''hello, world''], [''A'', ''B''])"
proof -
  note t = hooks_in_order_and_isolated [of "''A''" True "''B''" False
      "example_request ''GET'' ''/hello.txt''" "[]" "[]" "[]" "[]"
      "example_request ''GET'' ''/hello.txt''" "[]" _ _ _ _ _ _ _ example_env example_hooks
      "example_data ''GET /hello.txt HTTP/1.1''" "''10.0.0.9''"
      "example_request ''GET'' ''/hello.txt''" "[''A'', ''B'']"]
  have raised: "hook_A (example_request ''GET'' ''/hello.txt'') []
                = Raised (example_request ''GET'' ''/hello.txt'', [''A''])"
    by (simp add: hook_A_def log_hook_def)
  have hooks: "before_request example_hooks = [log_hook ''A'' True, log_hook ''B'' False]"
    by (simp add: example_hooks_def hook_A_def hook_B_def)
  have run: "run_before (before_request example_hooks) (example_request ''GET'' ''/hello.txt'') []
     = (example_request ''GET'' ''/hello.txt'', [''A'', ''B''])"
    unfolding hooks using t [THEN conjunct1] by simp
  have parse: "parse_request (example_data ''GET /hello.txt HTTP/1.1'')
               = Some (example_request ''GET'' ''/hello.txt'')"
    by code_simp
  have allow: "\<not> (ip_whitelist_enabled (config example_env)
                 \<and> ''10.0.0.9'' \<notin> set (ip_whitelist (config example_env)))"
    by code_simp
  have pipe: "handle_client example_env example_hooks
        (example_data ''GET /hello.txt HTTP/1.1'') ''10.0.0.9'' [] =
      (case resolve example_env (example_request ''GET'' ''/hello.txt'') of
         Sent b \<Rightarrow> ([b], [''A'', ''B''])
       | Failed \<Rightarrow> ([plain_response 500 ''500 Internal Server Error''], [''A'', ''B''])
       | Built response \<Rightarrow>
           (case run_after (after_request example_hooks) (example_request ''GET'' ''/hello.txt'')
                   response [''A'', ''B''] of
              (request'', response', w'') \<Rightarrow>
                ([http_response (resp_status response') (resp_headers response')
                    (resp_body response')], w'')))"
    by (rule t [THEN conjunct2, THEN conjunct2, THEN conjunct2, THEN conjunct2, THEN conjunct2,
          THEN conjunct2, THEN conjunct2, THEN mp, OF conjI [OF parse conjI [OF allow run]]])
  have rhs: "(case resolve example_env (example_request ''GET'' ''/hello.txt'') of
         Sent b \<Rightarrow> ([b], [''A'', ''B''])
       | Failed \<Rightarrow> ([plain_response 500 ''500 Internal Server Error''], [''A'', ''B''])
       | Built response \<Rightarrow>
           (case run_after (after_request example_hooks) (example_request ''GET'' ''/hello.txt'')
                   response [''A'', ''B''] of
              (request'', response', w'') \<Rightarrow>
                ([http_response (resp_status response') (resp_headers response')
                    (resp_body response')], w'')))
     = ([http_response 200 [(''Content-Type'', ''text/plain''), (''Content-Length'', ''12'')]
           ''hello, world''], [''A'', ''B''])"
    by code_simp
  show ?thesis by (intro conjI raised run trans [OF pipe rhs])
qed

section \<open>Resolution\<close>

lemma join_not_Nil: "b \<noteq> [] \<Longrightarrow> join a b \<noteq> []"
  by (simp add: join_def)

lemma join_not_Nil_left: "a \<noteq> [] \<Longrightarrow> join a b \<noteq> []"
  by (simp add: join_def isabs_def)

lemma sanitize_path_not_Nil: "sanitize_path e path = Some p \<Longrightarrow> p \<noteq> []"
  using join_not_Nil [OF normalized_not_Nil]
  by (auto simp: sanitize_path_normalized split: if_splits)

lemma resolve_serve:
  assumes "sanitize_path e (req_path request) = Some p" and "favicon_file e request = None"
  shows "resolve e request = serve e request p"
  using assms sanitize_path_not_Nil [OF assms(1)] by (simp add: resolve_def)

lemma resolve_favicon:
  assumes "sanitize_path e (req_path request) = Some p" and "favicon_file e request = Some fp"
    and "files e fp = Some (File (Some content))"
  shows "resolve e request =
     Sent (http_response 200 [(''Content-Type'', ''image/x-icon''),
                              (''Content-Length'', str_nat (length content))] content)"
  using assms sanitize_path_not_Nil [OF assms(1)] by (simp add: resolve_def read_file_def)

lemma handle_client_sent:
  assumes "parse_request data = Some request"
    and "\<not> (ip_whitelist_enabled (config e) \<and> addr \<notin> set (ip_whitelist (config e)))"
    and "run_before (before_request plugin_hooks) request w = (request', w')"
    and "resolve e request' = Sent b"
  shows "handle_client e plugin_hooks data addr w = ([b], w')"
  using handle_client_pipeline [OF assms(1,2,3)] assms(4) by simp

lemma handle_client_built:
  assumes "parse_request data = Some request"
    and "\<not> (ip_whitelist_enabled (config e) \<and> addr \<notin> set (ip_whitelist (config e)))"
    and "run_before (before_request plugin_hooks) request w = (request', w')"
    and "resolve e request' = Built response"
  shows "handle_client e plugin_hooks data addr w =
     (case run_after (after_request plugin_hooks) request' response w' of
        (request'', response', w'') \<Rightarrow>
          ([http_response (resp_status response') (resp_headers response')
              (resp_body response')], w''))"
  using handle_client_pipeline [OF assms(1,2,3)] assms(4) by simp

section \<open>Directories\<close>

lemma serve_listing_failure:
  assumes "isdir e p" and "\<not> isfile e (join p ''index.html'')"
    and "rel_path_of e p \<in> set (browsable_dirs (config e))" and "listdir e p = None"
  shows "serve e request p =
     Sent (http_response 200 [(''Content-Type'', ''text/html''), (''Content-Length'', ''23'')]
             ''Error listing directory'')"
proof -
  have body: "handle_directory e p (rel_path_of e p) = ''Error listing directory''"
    using assms(4) by (simp add: handle_directory_def)
  have len: "str_nat (length ''Error listing directory'') = ''23''" by code_simp
  show ?thesis using assms(1,2,3) unfolding serve_def Let_def body len by simp
qed

text \<open>
  C9. A request that reaches the directory case for a browsable directory without
  \<open>index.html\<close> whose entries cannot be listed is answered 200 with the fixed text
  \<open>Error listing directory\<close> as its body.
\<close>

theorem listing_failure_is_200:
  assumes "parse_request data = Some request"
    and "\<not> (ip_whitelist_enabled (config e) \<and> addr \<notin> set (ip_whitelist (config e)))"
    and "run_before (before_request plugin_hooks) request w = (request', w')"
    and "sanitize_path e (req_path request') = Some p"
    and "favicon_file e request' = None"
    and "isdir e p" and "\<not> isfile e (join p ''index.html'')"
    and "rel_path_of e p \<in> set (browsable_dirs (config e))"
    and "listdir e p = None"
  shows "handle_directory e p (rel_path_of e p) = ''Error listing directory''
    \<and> handle_client e plugin_hooks data addr w =
        ([http_response 200 [(''Content-Type'', ''text/html''), (''Content-Length'', ''23'')]
            ''Error listing directory''], w')"
proof
  show "handle_directory e p (rel_path_of e p) = ''Error listing directory''"
    using assms(9) by (simp add: handle_directory_def)
next
  have "resolve e request' =
     Sent (http_response 200 [(''Content-Type'', ''text/html''), (''Content-Length'', ''23'')]
             ''Error listing directory'')"
    unfolding resolve_serve [OF assms(4,5)] by (rule serve_listing_failure [OF assms(6,7,8,9)])
  then show "handle_client e plugin_hooks data addr w =
        ([http_response 200 [(''Content-Type'', ''text/html''), (''Content-Length'', ''23'')]
            ''Error listing directory''], w')"
    by (rule handle_client_sent [OF assms(1,2,3)])
qed

text \<open>
  The directory \<open>locked\<close> is browsable and cannot be listed.
\<close>

theorem listing_failure_is_200_witness:
  "sanitize_path browsing_env ''/locked'' = Some ''/srv/root/locked''
   \<and> files browsing_env ''/srv/root/locked'' = Some (Dir None)
   \<and> rel_path_of browsing_env ''/srv/root/locked'' = ''/locked''
   \<and> handle_client browsing_env example_hooks
        (example_data ''GET /locked HTTP/1.1'') ''10.0.0.9'' [] =
      ([http_response 200 [(''Content-Type'', ''text/html''), (''Content-Length'', ''23'')]
          ''Error listing directory''], [''A'', ''B''])"
proof -
  have parse: "parse_request (example_data ''GET /locked HTTP/1.1'')
               = Some (example_request ''GET'' ''/locked'')"
    by code_simp
  have allow: "\<not> (ip_whitelist_enabled (config browsing_env)
                 \<and> ''10.0.0.9'' \<notin> set (ip_whitelist (config browsing_env)))"
    by code_simp
  have run: "run_before (before_request example_hooks) (example_request ''GET'' ''/locked'') []
             = (example_request ''GET'' ''/locked'', [''A'', ''B''])"
    by (rule example_hooks_run)
  have san: "sanitize_path browsing_env ''/locked'' = Some ''/srv/root/locked''" by code_simp
  have san': "sanitize_path browsing_env (req_path (example_request ''GET'' ''/locked''))
              = Some ''/srv/root/locked''"
    by code_simp
  have fav: "favicon_file browsing_env (example_request ''GET'' ''/locked'') = None" by code_simp
  have dir: "isdir browsing_env ''/srv/root/locked''" by code_simp
  have node: "files browsing_env ''/srv/root/locked'' = Some (Dir None)" by code_simp
  have idx: "\<not> isfile browsing_env (join ''/srv/root/locked'' ''index.html'')" by code_simp
  have rel: "rel_path_of browsing_env ''/srv/root/locked'' = ''/locked''" by code_simp
  have br: "rel_path_of browsing_env ''/srv/root/locked'' \<in> set (browsable_dirs (config browsing_env))"
    by code_simp
  have ls: "listdir browsing_env ''/srv/root/locked'' = None" by code_simp
  note t = listing_failure_is_200 [OF parse allow run san' fav dir idx br ls]
  show ?thesis by (intro conjI san node rel t [THEN conjunct2])
qed

lemma foldl_join_not_Nil: "x \<noteq> [] \<Longrightarrow> foldl join x xs \<noteq> []"
  by (induction xs arbitrary: x) (simp_all add: join_not_Nil_left)

lemma relpath_not_Nil: "relpath d path start \<noteq> []"
proof -
  define start_list where "start_list = filter (\<lambda>x. x \<noteq> []) (split_on CHR ''/'' (abspath d start))"
  define path_list where "path_list = filter (\<lambda>x. x \<noteq> []) (split_on CHR ''/'' (abspath d path))"
  define rel_list where
    "rel_list = replicate (length start_list - common_prefix start_list path_list) ''..''
                @ drop (common_prefix start_list path_list) path_list"
  have rp: "relpath d path start
            = (if rel_list = [] then ''.'' else foldl join (hd rel_list) (tl rel_list))"
    by (simp add: relpath_def Let_def rel_list_def start_list_def path_list_def)
  have "x \<noteq> []" if "x \<in> set rel_list" for x
  proof -
    have "x = ''..'' \<or> x \<in> set path_list"
      using that by (auto simp: rel_list_def dest: in_set_dropD)
    then show ?thesis by (auto simp: path_list_def)
  qed
  then have "rel_list \<noteq> [] \<Longrightarrow> hd rel_list \<noteq> []" by simp
  then show ?thesis using foldl_join_not_Nil by (simp add: rp)
qed

lemma rel_path_of_not_root: "rel_path_of e path \<noteq> ''/''"
  using relpath_not_Nil by (simp add: rel_path_of_def)

text \<open>
  C5. The path that is looked up in \<open>browsable_dirs\<close> is never \<open>/\<close>: for the web root
  itself \<open>os.path.relpath\<close> returns \<open>.\<close>, and the path is \<open>/.\<close>. Under \<open>default_config\<close>,
  whose \<open>browsable_dirs\<close> is \<open>["/"]\<close>, the request for \<open>/\<close> on a web root without
  \<open>index.html\<close> is answered 403; it is answered with the listing when the list holds
  \<open>/.\<close> instead.
\<close>

theorem web_root_is_not_slash:
  "rel_path_of e path \<noteq> ''/''
   \<and> browsable_dirs (config example_env) = [''/'']
   \<and> sanitize_path example_env ''/'' = Some ''/srv/root/.''
   \<and> isdir example_env ''/srv/root/.''
   \<and> \<not> isfile example_env (join ''/srv/root/.'' ''index.html'')
   \<and> relpath (cwd example_env) ''/srv/root/.'' (WEB_ROOT example_env) = ''.''
   \<and> rel_path_of example_env ''/srv/root/.'' = ''/.''
   \<and> handle_client example_env no_hooks (example_data ''GET / HTTP/1.1'') ''127.0.0.1'' ()
      = ([plain_response 403 ''403 Forbidden''], ())
   \<and> handle_client (example_env \<lparr> config := default_config \<lparr> browsable_dirs := [''/.''] \<rparr> \<rparr>)
        no_hooks (example_data ''GET / HTTP/1.1'') ''127.0.0.1'' ()
      \<noteq> ([plain_response 403 ''403 Forbidden''], ())"
proof (intro conjI)
  show "rel_path_of e path \<noteq> ''/''" by (rule rel_path_of_not_root)
qed code_simp+

section \<open>Files\<close>

lemma isfile_not_isdir: "isfile e p \<Longrightarrow> \<not> isdir e p"
  by (auto simp: isfile_def isdir_def split: option.splits node.splits)

lemma serve_file: "isfile e p \<Longrightarrow> serve e request p = dispatch e request p"
  using isfile_not_isdir by (simp add: serve_def)

lemma serve_index:
  "isdir e p \<Longrightarrow> isfile e (join p ''index.html'') \<Longrightarrow>
   serve e request p = dispatch e request (join p ''index.html'')"
  by (simp add: serve_def Let_def)

lemma serve_missing:
  "\<not> isfile e p \<Longrightarrow> \<not> isdir e p \<Longrightarrow>
   serve e request p = Sent (plain_response 404 ''404 Not Found'')"
  by (simp add: serve_def dispatch_def)

lemma serve_forbidden:
  "isdir e p \<Longrightarrow> \<not> isfile e (join p ''index.html'') \<Longrightarrow>
   rel_path_of e p \<notin> set (browsable_dirs (config e)) \<Longrightarrow>
   serve e request p = Sent (plain_response 403 ''403 Forbidden'')"
  by (simp add: serve_def Let_def)

lemma foldl_list_item:
  "foldl (\<lambda>listing file. listing @ list_item r file) acc names
   = acc @ concat (map (list_item r) names)"
  by (induction names arbitrary: acc) simp_all

lemma handle_directory_listing:
  "listdir e p = Some names \<Longrightarrow>
   handle_directory e p r =
     encode (''<html><body><h1>Directory listing</h1><ul>'' @ concat (map (list_item r) names)
             @ ''</ul></body></html>'')"
  by (simp add: handle_directory_def foldl_list_item)

lemma dispatch_post:
  assumes "isfile e p" and "req_method request = ''POST''"
  shows "dispatch e request p =
     Built \<lparr> resp_status = 200, resp_headers = [(''Content-Type'', ''text/html'')],
             resp_body = encode (''<html><body><pre>'' @ parse_qs e (req_body request)
                                 @ ''</pre></body></html>'') \<rparr>"
  using assms by (simp add: dispatch_def)

lemma dispatch_get:
  assumes "files e p = Some (File (Some content))" and "req_method request = ''GET''"
  shows "dispatch e request p =
     Built \<lparr> resp_status = 200,
             resp_headers =
               [(''Content-Type'',
                 (case guess_type e p of
                    None \<Rightarrow> ''application/octet-stream''
                  | Some m \<Rightarrow> if m = [] then ''application/octet-stream'' else m)),
                (''Content-Length'', str_nat (length content))],
             resp_body = content \<rparr>"
  using assms by (simp add: dispatch_def isfile_def read_file_def Let_def)

lemma decimal_value_snoc:
  "decimal_value (s @ [c]) = 10 * decimal_value s + (code_point c - 48)"
  by (simp add: decimal_value_def)

lemma decimal_value_str_nat: "decimal_value (str_nat n) = n"
proof (induction n rule: str_nat.induct)
  case (1 n)
  show ?case
  proof (cases "n < 10")
    case True
    then have "str_nat n = [char_of (48 + n)]" by simp
    then show ?thesis using True by (simp add: decimal_value_def code_point_def)
  next
    case False
    then have s: "str_nat n = str_nat (n div 10) @ [char_of (48 + n mod 10)]"
      by (subst str_nat.simps) simp
    have "code_point (char_of (48 + n mod 10)) = 48 + n mod 10"
      by (simp add: code_point_def)
    then show ?thesis using 1 False unfolding s decimal_value_snoc by simp
  qed
qed

text \<open>
  C3, as stated, fails: a POST whose path passes path resolution and names nothing in
  the web root is answered 404. The handler tests the target with \<open>os.path.isdir\<close> and
  \<open>os.path.isfile\<close> before it looks at the method.
\<close>

theorem post_on_missing_target_counterexample:
  "req_method (example_request ''POST'' ''/nothing'') = ''POST''
   \<and> sanitize_path example_env ''/nothing'' = Some ''/srv/root/nothing''
   \<and> files example_env ''/srv/root/nothing'' = None
   \<and> handle_client example_env example_hooks
        (example_data ''POST /nothing HTTP/1.1'') ''10.0.0.9'' []
      = ([plain_response 404 ''404 Not Found''], [''A'', ''B''])"
  by code_simp

text \<open>
  C3, amended. A POST that reaches path resolution, is not taken by the favicon branch
  and whose target is a regular file, or a directory with a regular file \<open>index.html\<close>,
  gets the response 200 of type \<open>text/html\<close> whose body wraps the printed \<open>parse_qs\<close> of
  the request body; that response goes to the \<open>after_request\<close> hooks and is then sent.
  The body is a function of the request body alone: the file is tested, never opened.
  When the target is neither a file nor a directory the answer is 404.
\<close>

theorem post_on_existing_target:
  assumes "parse_request data = Some request"
    and "\<not> (ip_whitelist_enabled (config e) \<and> addr \<notin> set (ip_whitelist (config e)))"
    and "run_before (before_request plugin_hooks) request w = (request', w')"
    and "req_method request' = ''POST''"
    and "sanitize_path e (req_path request') = Some p"
    and "favicon_file e request' = None"
  shows "(isfile e p \<or> (isdir e p \<and> isfile e (join p ''index.html''))
          \<longrightarrow> resolve e request' =
                Built \<lparr> resp_status = 200, resp_headers = [(''Content-Type'', ''text/html'')],
                        resp_body = encode (''<html><body><pre>'' @ parse_qs e (req_body request')
                                            @ ''</pre></body></html>'') \<rparr>
              \<and> handle_client e plugin_hooks data addr w =
                (case run_after (after_request plugin_hooks) request'
                        \<lparr> resp_status = 200, resp_headers = [(''Content-Type'', ''text/html'')],
                          resp_body = encode (''<html><body><pre>''
                                              @ parse_qs e (req_body request')
                                              @ ''</pre></body></html>'') \<rparr> w' of
                   (request'', response', w'') \<Rightarrow>
                     ([http_response (resp_status response') (resp_headers response')
                         (resp_body response')], w'')))
    \<and> (\<not> isfile e p \<and> \<not> isdir e p
          \<longrightarrow> handle_client e plugin_hooks data addr w
              = ([plain_response 404 ''404 Not Found''], w'))"
proof (intro conjI impI)
  assume target: "isfile e p \<or> (isdir e p \<and> isfile e (join p ''index.html''))"
  show r: "resolve e request' =
                Built \<lparr> resp_status = 200, resp_headers = [(''Content-Type'', ''text/html'')],
                        resp_body = encode (''<html><body><pre>'' @ parse_qs e (req_body request')
                                            @ ''</pre></body></html>'') \<rparr>"
    unfolding resolve_serve [OF assms(5,6)] using target
  proof
    assume f: "isfile e p"
    show "serve e request' p =
                Built \<lparr> resp_status = 200, resp_headers = [(''Content-Type'', ''text/html'')],
                        resp_body = encode (''<html><body><pre>'' @ parse_qs e (req_body request')
                                            @ ''</pre></body></html>'') \<rparr>"
      unfolding serve_file [OF f] by (rule dispatch_post [OF f assms(4)])
  next
    assume d: "isdir e p \<and> isfile e (join p ''index.html'')"
    show "serve e request' p =
                Built \<lparr> resp_status = 200, resp_headers = [(''Content-Type'', ''text/html'')],
                        resp_body = encode (''<html><body><pre>'' @ parse_qs e (req_body request')
                                            @ ''</pre></body></html>'') \<rparr>"
      unfolding serve_index [OF d [THEN conjunct1] d [THEN conjunct2]]
      by (rule dispatch_post [OF d [THEN conjunct2] assms(4)])
  qed
  show "handle_client e plugin_hooks data addr w =
                (case run_after (after_request plugin_hooks) request'
                        \<lparr> resp_status = 200, resp_headers = [(''Content-Type'', ''text/html'')],
                          resp_body = encode (''<html><body><pre>''
                                              @ parse_qs e (req_body request')
                                              @ ''</pre></body></html>'') \<rparr> w' of
                   (request'', response', w'') \<Rightarrow>
                     ([http_response (resp_status response') (resp_headers response')
                         (resp_body response')], w''))"
    by (rule handle_client_built [OF assms(1,2,3) r])
next
  assume m: "\<not> isfile e p \<and> \<not> isdir e p"
  have "resolve e request' = Sent (plain_response 404 ''404 Not Found'')"
    unfolding resolve_serve [OF assms(5,6)]
    by (rule serve_missing [OF m [THEN conjunct1] m [THEN conjunct2]])
  then show "handle_client e plugin_hooks data addr w = ([plain_response 404 ''404 Not Found''], w')"
    by (rule handle_client_sent [OF assms(1,2,3)])
qed

text \<open>
  A POST with an empty body to a directory with an index file.
\<close>

theorem post_on_existing_target_witness:
  "sanitize_path example_env ''/site'' = Some ''/srv/root/site''
   \<and> isdir example_env ''/srv/root/site''
   \<and> isfile example_env (join ''/srv/root/site'' ''index.html'')
   \<and> handle_client example_env example_hooks
        (example_data ''POST /site HTTP/1.1'') ''10.0.0.9'' []
      = ([http_response 200 [(''Content-Type'', ''text/html'')]
            ''<html><body><pre>{}</pre></body></html>''], [''A'', ''B''])"
proof -
  have parse: "parse_request (example_data ''POST /site HTTP/1.1'')
               = Some (example_request ''POST'' ''/site'')"
    by code_simp
  have allow: "\<not> (ip_whitelist_enabled (config example_env)
                 \<and> ''10.0.0.9'' \<notin> set (ip_whitelist (config example_env)))"
    by code_simp
  have run: "run_before (before_request example_hooks) (example_request ''POST'' ''/site'') []
             = (example_request ''POST'' ''/site'', [''A'', ''B''])"
    by (rule example_hooks_run)
  have post: "req_method (example_request ''POST'' ''/site'') = ''POST''"
    by (simp add: example_request_def)
  have san: "sanitize_path example_env ''/site'' = Some ''/srv/root/site''" by code_simp
  have san': "sanitize_path example_env (req_path (example_request ''POST'' ''/site''))
              = Some ''/srv/root/site''"
    by code_simp
  have fav: "favicon_file example_env (example_request ''POST'' ''/site'') = None" by code_simp
  have dir: "isdir example_env ''/srv/root/site''" by code_simp
  have idx: "isfile example_env (join ''/srv/root/site'' ''index.html'')" by code_simp
  note t = post_on_existing_target [OF parse allow run post san' fav,
      THEN conjunct1, THEN mp, OF disjI2 [OF conjI [OF dir idx]], THEN conjunct2]
  have rhs: "(case run_after (after_request example_hooks) (example_request ''POST'' ''/site'')
                        \<lparr> resp_status = 200, resp_headers = [(''Content-Type'', ''text/html'')],
                          resp_body = encode (''<html><body><pre>''
                                @ parse_qs example_env (req_body (example_request ''POST'' ''/site''))
                                @ ''</pre></body></html>'') \<rparr> [''A'', ''B''] of
                   (request'', response', w'') \<Rightarrow>
                     ([http_response (resp_status response') (resp_headers response')
                         (resp_body response')], w''))
      = ([http_response 200 [(''Content-Type'', ''text/html'')]
            ''<html><body><pre>{}</pre></body></html>''], [''A'', ''B''])"
    by code_simp
  show ?thesis by (intro conjI san dir idx trans [OF t rhs])
qed

text \<open>
  C4, as stated, fails on the request for \<open>/favicon.ico\<close>: the path resolves to a
  regular file of the web root, and with the favicon configured as \<open>/logo.png\<close> the body
  sent is that of \<open>logo.png\<close>, of type \<open>image/x-icon\<close>.
\<close>

theorem get_favicon_counterexample:
  "req_method (example_request ''GET'' ''/favicon.ico'') = ''GET''
   \<and> sanitize_path logo_env ''/favicon.ico'' = Some ''/srv/root/favicon.ico''
   \<and> files logo_env ''/srv/root/favicon.ico'' = Some (File (Some ''ICO''))
   \<and> handle_client logo_env example_hooks
        (example_data ''GET /favicon.ico HTTP/1.1'') ''10.0.0.9'' []
      = ([http_response 200 [(''Content-Type'', ''image/x-icon''), (''Content-Length'', ''9'')]
            ''PNG-bytes''], [''A'', ''B''])"
  by code_simp

text \<open>
  C4, amended. A GET that reaches path resolution, is not taken by the favicon branch and
  whose path resolves to a regular file that can be read gets the response 200 whose body
  is the file's bytes, whose \<open>Content-Length\<close> is the decimal numeral of their number, and
  whose \<open>Content-Type\<close> is what \<open>guess_type\<close> returns for the path, or
  \<open>application/octet-stream\<close> when it returns nothing; that response goes to the
  \<open>after_request\<close> hooks and is then sent.
\<close>

theorem get_regular_file:
  assumes "parse_request data = Some request"
    and "\<not> (ip_whitelist_enabled (config e) \<and> addr \<notin> set (ip_whitelist (config e)))"
    and "run_before (before_request plugin_hooks) request w = (request', w')"
    and "req_method request' = ''GET''"
    and "sanitize_path e (req_path request') = Some p"
    and "favicon_file e request' = None"
    and "files e p = Some (File (Some content))"
  shows "resolve e request' =
           Built \<lparr> resp_status = 200,
                   resp_headers =
                     [(''Content-Type'',
                       (case guess_type e p of
                          None \<Rightarrow> ''application/octet-stream''
                        | Some m \<Rightarrow> if m = [] then ''application/octet-stream'' else m)),
                      (''Content-Length'', str_nat (length content))],
                   resp_body = content \<rparr>
    \<and> decimal_value (str_nat (length content)) = length content
    \<and> handle_client e plugin_hooks data addr w =
        (case run_after (after_request plugin_hooks) request'
                \<lparr> resp_status = 200,
                  resp_headers =
                    [(''Content-Type'',
                      (case guess_type e p of
                         None \<Rightarrow> ''application/octet-stream''
                       | Some m \<Rightarrow> if m = [] then ''application/octet-stream'' else m)),
                     (''Content-Length'', str_nat (length content))],
                  resp_body = content \<rparr> w' of
           (request'', response', w'') \<Rightarrow>
             ([http_response (resp_status response') (resp_headers response')
                 (resp_body response')], w''))"
proof (intro conjI)
  have f: "isfile e p" using assms(7) by (simp add: isfile_def)
  show r: "resolve e request' =
           Built \<lparr> resp_status = 200,
                   resp_headers =
                     [(''Content-Type'',
                       (case guess_type e p of
                          None \<Rightarrow> ''application/octet-stream''
                        | Some m \<Rightarrow> if m = [] then ''application/octet-stream'' else m)),
                      (''Content-Length'', str_nat (length content))],
                   resp_body = content \<rparr>"
    unfolding resolve_serve [OF assms(5,6)] serve_file [OF f]
    by (rule dispatch_get [OF assms(7,4)])
  show "decimal_value (str_nat (length content)) = length content"
    by (rule decimal_value_str_nat)
  show "handle_client e plugin_hooks data addr w =
        (case run_after (after_request plugin_hooks) request'
                \<lparr> resp_status = 200,
                  resp_headers =
                    [(''Content-Type'',
                      (case guess_type e p of
                         None \<Rightarrow> ''application/octet-stream''
                       | Some m \<Rightarrow> if m = [] then ''application/octet-stream'' else m)),
                     (''Content-Length'', str_nat (length content))],
                  resp_body = content \<rparr> w' of
           (request'', response', w'') \<Rightarrow>
             ([http_response (resp_status response') (resp_headers response')
                 (resp_body response')], w''))"
    by (rule handle_client_built [OF assms(1,2,3) r])
qed

text \<open>
  A text file of one byte.
\<close>

theorem get_regular_file_witness:
  "sanitize_path example_env ''/pub/x.txt'' = Some ''/srv/root/pub/x.txt''
   \<and> files example_env ''/srv/root/pub/x.txt'' = Some (File (Some ''x''))
   \<and> guess_type example_env ''/srv/root/pub/x.txt'' = Some ''text/plain''
   \<and> handle_client example_env example_hooks
        (example_data ''GET /pub/x.txt HTTP/1.1'') ''10.0.0.9'' []
      = ([http_response 200 [(''Content-Type'', ''text/plain''), (''Content-Length'', ''1'')]
            ''x''], [''A'', ''B''])
   \<and> guess_type example_env ''/srv/root/a b'' = None"
proof -
  have parse: "parse_request (example_data ''GET /pub/x.txt HTTP/1.1'')
               = Some (example_request ''GET'' ''/pub/x.txt'')"
    by code_simp
  have allow: "\<not> (ip_whitelist_enabled (config example_env)
                 \<and> ''10.0.0.9'' \<notin> set (ip_whitelist (config example_env)))"
    by code_simp
  have run: "run_before (before_request example_hooks) (example_request ''GET'' ''/pub/x.txt'') []
             = (example_request ''GET'' ''/pub/x.txt'', [''A'', ''B''])"
    by (rule example_hooks_run)
  have get: "req_method (example_request ''GET'' ''/pub/x.txt'') = ''GET''"
    by (simp add: example_request_def)
  have san: "sanitize_path example_env ''/pub/x.txt'' = Some ''/srv/root/pub/x.txt''" by code_simp
  have san': "sanitize_path example_env (req_path (example_request ''GET'' ''/pub/x.txt''))
              = Some ''/srv/root/pub/x.txt''"
    by code_simp
  have fav: "favicon_file example_env (example_request ''GET'' ''/pub/x.txt'') = None" by code_simp
  have node: "files example_env ''/srv/root/pub/x.txt'' = Some (File (Some ''x''))" by code_simp
  have mime: "guess_type example_env ''/srv/root/pub/x.txt'' = Some ''text/plain''" by code_simp
  have nomime: "guess_type example_env ''/srv/root/a b'' = None" by code_simp
  note t = get_regular_file [OF parse allow run get san' fav node, THEN conjunct2, THEN conjunct2]
  have rhs: "(case run_after (after_request example_hooks) (example_request ''GET'' ''/pub/x.txt'')
                \<lparr> resp_status = 200,
                  resp_headers =
                    [(''Content-Type'',
                      (case guess_type example_env ''/srv/root/pub/x.txt'' of
                         None \<Rightarrow> ''application/octet-stream''
                       | Some m \<Rightarrow> if m = [] then ''application/octet-stream'' else m)),
                     (''Content-Length'', str_nat (length ''x''))],
                  resp_body = ''x'' \<rparr> [''A'', ''B''] of
           (request'', response', w'') \<Rightarrow>
             ([http_response (resp_status response') (resp_headers response')
                 (resp_body response')], w''))
       = ([http_response 200 [(''Content-Type'', ''text/plain''), (''Content-Length'', ''1'')]
            ''x''], [''A'', ''B''])"
    by code_simp
  show ?thesis by (intro conjI san node mime nomime trans [OF t rhs])
qed

section \<open>The favicon\<close>

lemma favicon_file_other_path:
  "req_path request \<noteq> ''/favicon.ico'' \<Longrightarrow> favicon_file e request = None"
  by (simp add: favicon_file_def)

lemma favicon_file_unset:
  "favicon (config e) = None \<or> favicon (config e) = Some [] \<Longrightarrow> favicon_file e request = None"
  by (auto simp: favicon_file_def)

lemma favicon_file_set:
  assumes "req_path request = ''/favicon.ico''" and "favicon (config e) = Some fav" and "fav \<noteq> []"
  shows "favicon_file e request =
     (case sanitize_path e fav of
        None \<Rightarrow> None
      | Some fp \<Rightarrow> if isfile e fp then Some fp else None)"
proof (cases "sanitize_path e fav")
  case None
  then show ?thesis using assms by (simp add: favicon_file_def)
next
  case (Some fp)
  then show ?thesis using assms sanitize_path_not_Nil [OF Some] by (simp add: favicon_file_def)
qed

text \<open>
  C8, as stated, fails: the route of the favicon branch is the literal path
  \<open>/favicon.ico\<close>, not the configured one. With the favicon configured as \<open>/logo.png\<close>,
  the request for \<open>/logo.png\<close> takes the normal way and is served as \<open>image/png\<close>.
\<close>

theorem favicon_route_counterexample:
  "favicon (config logo_env) = Some ''/logo.png''
   \<and> req_path (example_request ''GET'' ''/logo.png'') = ''/logo.png''
   \<and> sanitize_path logo_env ''/logo.png'' = Some ''/srv/root/logo.png''
   \<and> files logo_env ''/srv/root/logo.png'' = Some (File (Some ''PNG-bytes''))
   \<and> handle_client logo_env example_hooks
        (example_data ''GET /logo.png HTTP/1.1'') ''10.0.0.9'' []
      = ([http_response 200 [(''Content-Type'', ''image/png''), (''Content-Length'', ''9'')]
            ''PNG-bytes''], [''A'', ''B''])"
  by code_simp

text \<open>
  C8, amended. The favicon branch is for the request path \<open>/favicon.ico\<close> alone, and
  only when a favicon is configured (a path that is not empty). The configured path then
  goes through \<open>sanitize_path\<close>; when that gives a regular file, a request that reaches
  resolution is answered 200 with that file's bytes as \<open>image/x-icon\<close>. In every other
  case (another request path, no favicon configured, the configured path refused or no
  regular file) resolution goes on with the request path itself.
\<close>

theorem favicon_shortcut:
  "(req_path request \<noteq> ''/favicon.ico'' \<longrightarrow> favicon_file e request = None)
   \<and> (favicon (config e) = None \<or> favicon (config e) = Some []
       \<longrightarrow> favicon_file e request = None)
   \<and> (req_path request = ''/favicon.ico'' \<and> favicon (config e) = Some fav \<and> fav \<noteq> []
       \<longrightarrow> favicon_file e request =
             (case sanitize_path e fav of
                None \<Rightarrow> None
              | Some fp \<Rightarrow> if isfile e fp then Some fp else None))
   \<and> (favicon_file e request = None \<and> sanitize_path e (req_path request) = Some p
       \<longrightarrow> resolve e request = serve e request p)
   \<and> (parse_request data = Some parsed
       \<and> \<not> (ip_whitelist_enabled (config e) \<and> addr \<notin> set (ip_whitelist (config e)))
       \<and> run_before (before_request plugin_hooks) parsed w = (request, w')
       \<and> req_path request = ''/favicon.ico''
       \<and> sanitize_path e (req_path request) = Some p
       \<and> favicon (config e) = Some fav \<and> fav \<noteq> []
       \<and> sanitize_path e fav = Some fp
       \<and> files e fp = Some (File (Some content))
       \<longrightarrow> handle_client e plugin_hooks data addr w =
             ([http_response 200 [(''Content-Type'', ''image/x-icon''),
                                  (''Content-Length'', str_nat (length content))] content], w'))"
proof (intro conjI impI)
  assume "req_path request \<noteq> ''/favicon.ico''"
  then show "favicon_file e request = None" by (rule favicon_file_other_path)
next
  assume "favicon (config e) = None \<or> favicon (config e) = Some []"
  then show "favicon_file e request = None" by (rule favicon_file_unset)
next
  assume a: "req_path request = ''/favicon.ico'' \<and> favicon (config e) = Some fav \<and> fav \<noteq> []"
  show "favicon_file e request =
             (case sanitize_path e fav of
                None \<Rightarrow> None
              | Some fp \<Rightarrow> if isfile e fp then Some fp else None)"
    by (rule favicon_file_set [OF a [THEN conjunct1] a [THEN conjunct2, THEN conjunct1]
          a [THEN conjunct2, THEN conjunct2]])
next
  assume a: "favicon_file e request = None \<and> sanitize_path e (req_path request) = Some p"
  show "resolve e request = serve e request p"
    by (rule resolve_serve [OF a [THEN conjunct2] a [THEN conjunct1]])
next
  assume a: "parse_request data = Some parsed
       \<and> \<not> (ip_whitelist_enabled (config e) \<and> addr \<notin> set (ip_whitelist (config e)))
       \<and> run_before (before_request plugin_hooks) parsed w = (request, w')
       \<and> req_path request = ''/favicon.ico''
       \<and> sanitize_path e (req_path request) = Some p
       \<and> favicon (config e) = Some fav \<and> fav \<noteq> []
       \<and> sanitize_path e fav = Some fp
       \<and> files e fp = Some (File (Some content))"
  then have parse: "parse_request data = Some parsed"
    and allow: "\<not> (ip_whitelist_enabled (config e) \<and> addr \<notin> set (ip_whitelist (config e)))"
    and run: "run_before (before_request plugin_hooks) parsed w = (request, w')"
    and route: "req_path request = ''/favicon.ico''"
    and san: "sanitize_path e (req_path request) = Some p"
    and fav: "favicon (config e) = Some fav" "fav \<noteq> []"
    and fsan: "sanitize_path e fav = Some fp"
    and node: "files e fp = Some (File (Some content))"
    by blast+
  have "isfile e fp" using node by (simp add: isfile_def)
  then have "favicon_file e request = Some fp"
    unfolding favicon_file_set [OF route fav] fsan by simp
  then have "resolve e request =
     Sent (http_response 200 [(''Content-Type'', ''image/x-icon''),
                              (''Content-Length'', str_nat (length content))] content)"
    using node by (rule resolve_favicon [OF san])
  then show "handle_client e plugin_hooks data addr w =
             ([http_response 200 [(''Content-Type'', ''image/x-icon''),
                                  (''Content-Length'', str_nat (length content))] content], w')"
    by (rule handle_client_sent [OF parse allow run])
qed

text \<open>
  The request for \<open>/favicon.ico\<close> under \<open>default_config\<close>, and with no favicon
  configured: the same file, then served by the normal way.
\<close>

theorem favicon_shortcut_witness:
  "favicon (config example_env) = Some ''/favicon.ico''
   \<and> sanitize_path example_env ''/favicon.ico'' = Some ''/srv/root/favicon.ico''
   \<and> files example_env ''/srv/root/favicon.ico'' = Some (File (Some ''ICO''))
   \<and> handle_client example_env example_hooks
        (example_data ''GET /favicon.ico HTTP/1.1'') ''10.0.0.9'' []
      = ([http_response 200 [(''Content-Type'', ''image/x-icon''), (''Content-Length'', ''3'')]
            ''ICO''], [''A'', ''B''])
   \<and> favicon_file (example_env \<lparr> config := default_config \<lparr> favicon := None \<rparr> \<rparr>)
        (example_request ''GET'' ''/favicon.ico'') = None
   \<and> handle_client (example_env \<lparr> config := default_config \<lparr> favicon := None \<rparr> \<rparr>)
        example_hooks (example_data ''GET /favicon.ico HTTP/1.1'') ''10.0.0.9'' []
      = ([http_response 200 [(''Content-Type'', ''application/octet-stream''),
                             (''Content-Length'', ''3'')] ''ICO''], [''A'', ''B''])"
proof -
  have parse: "parse_request (example_data ''GET /favicon.ico HTTP/1.1'')
               = Some (example_request ''GET'' ''/favicon.ico'')"
    by code_simp
  have allow: "\<not> (ip_whitelist_enabled (config example_env)
                 \<and> ''10.0.0.9'' \<notin> set (ip_whitelist (config example_env)))"
    by code_simp
  have run: "run_before (before_request example_hooks) (example_request ''GET'' ''/favicon.ico'') []
             = (example_request ''GET'' ''/favicon.ico'', [''A'', ''B''])"
    by (rule example_hooks_run)
  have route: "req_path (example_request ''GET'' ''/favicon.ico'') = ''/favicon.ico''"
    by (simp add: example_request_def)
  have san: "sanitize_path example_env ''/favicon.ico'' = Some ''/srv/root/favicon.ico''"
    by code_simp
  have san': "sanitize_path example_env (req_path (example_request ''GET'' ''/favicon.ico''))
              = Some ''/srv/root/favicon.ico''"
    unfolding route by (rule san)
  have fav: "favicon (config example_env) = Some ''/favicon.ico''" by code_simp
  have ne: "''/favicon.ico'' \<noteq> []" by simp
  have node: "files example_env ''/srv/root/favicon.ico'' = Some (File (Some ''ICO''))"
    by code_simp
  have len: "str_nat (length ''ICO'') = ''3''" by code_simp
  have h: "handle_client example_env example_hooks
        (example_data ''GET /favicon.ico HTTP/1.1'') ''10.0.0.9'' []
      = ([http_response 200 [(''Content-Type'', ''image/x-icon''),
                             (''Content-Length'', str_nat (length ''ICO''))] ''ICO''], [''A'', ''B''])"
    by (rule favicon_shortcut [THEN conjunct2, THEN conjunct2, THEN conjunct2, THEN conjunct2,
          THEN mp, OF conjI [OF parse conjI [OF allow conjI [OF run conjI [OF route
            conjI [OF san' conjI [OF fav conjI [OF ne conjI [OF san node]]]]]]]]])
  have unset: "favicon (config (example_env \<lparr> config := default_config \<lparr> favicon := None \<rparr> \<rparr>)) = None
     \<or> favicon (config (example_env \<lparr> config := default_config \<lparr> favicon := None \<rparr> \<rparr>)) = Some []"
    by simp
  have none: "favicon_file (example_env \<lparr> config := default_config \<lparr> favicon := None \<rparr> \<rparr>)
        (example_request ''GET'' ''/favicon.ico'') = None"
    by (rule favicon_shortcut [THEN conjunct2, THEN conjunct1, THEN mp, OF unset])
  have through: "handle_client (example_env \<lparr> config := default_config \<lparr> favicon := None \<rparr> \<rparr>)
        example_hooks (example_data ''GET /favicon.ico HTTP/1.1'') ''10.0.0.9'' []
      = ([http_response 200 [(''Content-Type'', ''application/octet-stream''),
                             (''Content-Length'', ''3'')] ''ICO''], [''A'', ''B''])"
    by code_simp
  show ?thesis by (intro conjI fav san node h [unfolded len] none through)
qed

section \<open>Path resolution on Windows\<close>

lemma nt_join_drive_rooted:
  assumes "nt_splitdrive p = (p_drive, p_path)" and "p_drive \<noteq> []"
    and "p_path \<noteq> []" and "hd p_path = BACKSLASH"
  shows "nt_join root p = p_drive @ p_path"
  using assms by (cases "nt_splitdrive root") (simp add: nt_join_def)

text \<open>
  C1. On Windows, where \<open>os.path\<close> is \<open>ntpath\<close>, \<open>sanitize_path\<close> returns paths outside
  the web root. A request path that, after the leading slashes are stripped, starts
  with a drive is returned as it is, whatever the web root; so is one that starts with
  a backslash (on the web root's drive) and one that names a UNC share: \<open>lstrip("/")\<close>
  removes slashes only, and \<open>ntpath.join\<close> drops the web root before a rooted path.
  A relative path is still joined onto the web root and a \<open>..\<close> is still refused.
\<close>

theorem sanitize_path_nt_escapes:
  "sanitize_path_nt (windows_env \<lparr> WEB_ROOT := root \<rparr>) ''/C:/Windows/win.ini''
     = Some (win ''C:/Windows/win.ini'')
   \<and> WEB_ROOT windows_env = win ''C:/srv/root''
   \<and> sanitize_path_nt windows_env ''/pub/x.txt'' = Some (win ''C:/srv/root/pub/x.txt'')
   \<and> sanitize_path_nt windows_env ''/../x'' = None
   \<and> sanitize_path_nt windows_env ''/D:/secret.txt'' = Some (win ''D:/secret.txt'')
   \<and> sanitize_path_nt windows_env ''/%5CWindows%5Cwin.ini'' = Some (win ''C:/Windows/win.ini'')
   \<and> sanitize_path_nt windows_env ''/%5C%5Chost%5Cshare%5Cx.txt''
       = Some (win ''//host/share/x.txt'')
   \<and> take (length (WEB_ROOT windows_env)) (win ''C:/Windows/win.ini'') \<noteq> WEB_ROOT windows_env
   \<and> take (length (WEB_ROOT windows_env)) (win ''D:/secret.txt'') \<noteq> WEB_ROOT windows_env
   \<and> take (length (WEB_ROOT windows_env)) (win ''//host/share/x.txt'') \<noteq> WEB_ROOT windows_env"
proof (intro conjI)
  have norm: "nt_normpath (lstrip_slash (unquote_plus_ascii
                (takeWhile (\<lambda>c. c \<noteq> CHR ''?'') ''/C:/Windows/win.ini'')))
              = win ''C:/Windows/win.ini''"
    by code_simp
  have nodots: "\<not> contains ''..'' (win ''C:/Windows/win.ini'')" by code_simp
  have split: "nt_splitdrive (win ''C:/Windows/win.ini'') = (''C:'', win ''/Windows/win.ini'')"
    by code_simp
  have ne: "''C:'' \<noteq> []" "win ''/Windows/win.ini'' \<noteq> []" by (simp_all add: win_def)
  have rooted: "hd (win ''/Windows/win.ini'') = BACKSLASH" by (simp add: win_def)
  have whole: "''C:'' @ win ''/Windows/win.ini'' = win ''C:/Windows/win.ini''"
    by (simp add: win_def)
  have decoder: "unquote_plus (windows_env \<lparr> WEB_ROOT := root \<rparr>) = unquote_plus_ascii"
    by (simp add: windows_env_def example_env_def)
  show "sanitize_path_nt (windows_env \<lparr> WEB_ROOT := root \<rparr>) ''/C:/Windows/win.ini''
     = Some (win ''C:/Windows/win.ini'')"
    unfolding sanitize_path_nt_def Let_def decoder norm
    using nodots nt_join_drive_rooted [OF split ne rooted, of root] whole by simp
qed code_simp+

end
